theory Spec2Isabelle
  imports Main "HOL-Library.Sublist"
begin

section \<open>JavaScript strings\<close>

text \<open>
  A JavaScript string is a sequence of UTF-16 code units. The model reads a HOL
  \<^typ>\<open>char\<close> as one code unit below 256 (the Latin-1 range), so \<^const>\<open>length\<close> is
  the \<^verbatim>\<open>.length\<close> of the source and every function below is the restriction of the
  JavaScript built-in to such strings.
\<close>

definition is_line_terminator :: "char \<Rightarrow> bool" where
  \<comment> \<open>the characters the regular expression atom \<^verbatim>\<open>.\<close> refuses\<close>
  "is_line_terminator c = (c \<in> set [CHR 0x0A, CHR 0x0D])"

definition is_white_space :: "char \<Rightarrow> bool" where
  \<comment> \<open>\<^verbatim>\<open>\s\<close> and \<^verbatim>\<open>String.prototype.trim\<close>: tab, LF, VT, FF, CR, space, no-break space\<close>
  "is_white_space c =
     (c \<in> set [CHR 0x09, CHR 0x0A, CHR 0x0B, CHR 0x0C, CHR 0x0D, CHR 0x20, CHR 0xA0])"

definition trim :: "string \<Rightarrow> string" where
  "trim s = rev (dropWhile is_white_space (rev (dropWhile is_white_space s)))"

definition lower_unit :: "char \<Rightarrow> char" where
  "lower_unit c =
     (let n = (of_char c :: nat)
      in if (65 \<le> n \<and> n \<le> 90) \<or> (192 \<le> n \<and> n \<le> 222 \<and> n \<noteq> 215)
         then char_of (n + 32) else c)"

definition toLowerCase :: "string \<Rightarrow> string" where
  "toLowerCase s = map lower_unit s"

fun startsWith :: "string \<Rightarrow> string \<Rightarrow> bool" where
  "startsWith s [] = True"
| "startsWith [] (p # ps) = False"
| "startsWith (c # cs) (p # ps) = (c = p \<and> startsWith cs ps)"

fun str_includes :: "string \<Rightarrow> string \<Rightarrow> bool" where
  "str_includes [] sub = (sub = [])"
| "str_includes (c # cs) sub = (startsWith (c # cs) sub \<or> str_includes cs sub)"

fun digits_of :: "nat \<Rightarrow> string" where
  "digits_of n =
     (if n < 10 then [char_of (48 + n)] else digits_of (n div 10) @ [char_of (48 + n mod 10)])"

declare digits_of.simps [simp del]

text \<open>\<^verbatim>\<open>encodeURIComponent\<close>: every code unit but the unreserved ones is written as the
  percent-escaped bytes of its UTF-8 encoding (one byte below 128, two bytes from 128 to
  255). The source's call can throw only on a lone surrogate, which is not a code unit of
  the model.\<close>

definition uri_unreserved :: "char \<Rightarrow> bool" where
  "uri_unreserved c =
     (c \<in> set (''ABCDEFGHIJKLMNOPQRSTUVWXYZabcdefghijklmnopqrstuvwxyz0123456789-_.!~*()''
               @ [CHR 0x27]))"

definition hex_digit :: "nat \<Rightarrow> char" where
  "hex_digit n = (if n < 10 then char_of (48 + n) else char_of (55 + n))"

definition percent_byte :: "nat \<Rightarrow> string" where
  "percent_byte b = [CHR ''%'', hex_digit (b div 16), hex_digit (b mod 16)]"

definition encode_unit :: "char \<Rightarrow> string" where
  "encode_unit c =
     (let n = (of_char c :: nat)
      in if uri_unreserved c then [c]
         else if n < 128 then percent_byte n
         else percent_byte (192 + n div 64) @ percent_byte (128 + n mod 64))"

definition encodeURIComponent :: "string \<Rightarrow> string" where
  "encodeURIComponent s = concat (map encode_unit s)"

section \<open>Directive parser (AIChat.jsx)\<close>

text \<open>
  \<^verbatim>\<open>const generateImageURL = (prompt) => {
    const encodedPrompt = encodeURIComponent(prompt);
    return `https://image.pollinations.ai/prompt/${encodedPrompt}?width=512&height=512&nologo=true`;
  };\<close>
\<close>

definition generateImageURL :: "string \<Rightarrow> string" where
  "generateImageURL prompt =
     (let encodedPrompt = encodeURIComponent prompt
      in ''https://image.pollinations.ai/prompt/'' @ encodedPrompt
           @ ''?width=512&height=512&nologo=true'')"

text \<open>
  The regular expression \<^verbatim>\<open>/\[IMAGE_REQUEST:\s*(.+?)\]/\<close> as the backtracking matcher
  runs it. \<open>lazy_tail g s\<close> is the lazy \<^verbatim>\<open>.+?\<close> once it holds the non-empty group
  \<open>g\<close>: it first tries the closing bracket, and only then takes one more character
  that is not a line terminator.
\<close>

fun lazy_tail :: "string \<Rightarrow> string \<Rightarrow> (string \<times> string) option" where
  "lazy_tail g [] = None"
| "lazy_tail g (c # cs) =
     (if c = CHR '']'' then Some (g, cs)
      else if is_line_terminator c then None
      else lazy_tail (g @ [c]) cs)"

definition group_then_bracket :: "string \<Rightarrow> (string \<times> string) option" where
  \<comment> \<open>\<^verbatim>\<open>(.+?)\]\<close> at the head of the string: the group and what follows the bracket\<close>
  "group_then_bracket s =
     (case s of
        [] \<Rightarrow> None
      | c # cs \<Rightarrow> if is_line_terminator c then None else lazy_tail [c] cs)"

text \<open>The greedy \<^verbatim>\<open>\s*\<close>: first all the white space there is, then one character less
  at a time.\<close>

fun spaces_then_group :: "nat \<Rightarrow> string \<Rightarrow> (string \<times> string) option" where
  "spaces_then_group 0 s = group_then_bracket s"
| "spaces_then_group (Suc k) s =
     (case group_then_bracket (drop (Suc k) s) of
        Some r \<Rightarrow> Some r
      | None \<Rightarrow> spaces_then_group k s)"

definition directive_tag :: string where
  "directive_tag = ''[IMAGE_REQUEST:''"

definition match_here :: "string \<Rightarrow> (string \<times> string) option" where
  "match_here s =
     (if startsWith s directive_tag
      then (let r = drop (length directive_tag) s
            in spaces_then_group (length (takeWhile is_white_space r)) r)
      else None)"

text \<open>The search tries every start position from the left; the result is the text before
  the match, the captured group and the text after the match.\<close>

fun regex_exec :: "string \<Rightarrow> (string \<times> string \<times> string) option" where
  "regex_exec [] = None"
| "regex_exec (c # cs) =
     (case match_here (c # cs) of
        Some (g, after) \<Rightarrow> Some ([], g, after)
      | None \<Rightarrow>
          (case regex_exec cs of
             None \<Rightarrow> None
           | Some (before, g, after) \<Rightarrow> Some (c # before, g, after)))"

definition str_match :: "string \<Rightarrow> string option" where
  \<comment> \<open>\<^verbatim>\<open>aiText.match(/\[IMAGE_REQUEST:\s*(.+?)\]/)\<close>: element 1 of the match array\<close>
  "str_match s = (case regex_exec s of None \<Rightarrow> None | Some (before, g, after) \<Rightarrow> Some g)"

definition str_replace :: "string \<Rightarrow> string" where
  \<comment> \<open>\<^verbatim>\<open>aiText.replace(/\[IMAGE_REQUEST:\s*.+?\]/, '')\<close>: no \<^verbatim>\<open>g\<close> flag, first match only\<close>
  "str_replace s =
     (case regex_exec s of None \<Rightarrow> s | Some (before, g, after) \<Rightarrow> before @ after)"

text \<open>
  Lines 388 to 406 of \<^verbatim>\<open>handleSendMessage\<close>:
  \<^verbatim>\<open>const imageRequestMatch = aiText.match(/\[IMAGE_REQUEST:\s*(.+?)\]/);
  let generatedImageUrl = null;
  if (imageRequestMatch) {
    const imagePrompt = imageRequestMatch[1].trim();
    generatedImageUrl = generateImageURL(imagePrompt);
    aiText = aiText.replace(/\[IMAGE_REQUEST:\s*.+?\]/, '').trim();
    if (!aiText) { aiText = `Here's the image you requested: "${imagePrompt}"`; }
  }\<close>
  The result is the pair of \<^verbatim>\<open>aiText\<close> and \<^verbatim>\<open>generatedImageUrl\<close>.
\<close>

definition default_caption :: "string \<Rightarrow> string" where
  "default_caption imagePrompt =
     ''Here'' @ [CHR 0x27] @ ''s the image you requested: '' @ [CHR 0x22] @ imagePrompt
       @ [CHR 0x22]"

definition parseDirective :: "string \<Rightarrow> string \<times> string option" where
  "parseDirective aiText =
     (case str_match aiText of
        None \<Rightarrow> (aiText, None)
      | Some g \<Rightarrow>
          (let imagePrompt = trim g;
               generatedImageUrl = generateImageURL imagePrompt;
               aiText' = trim (str_replace aiText)
           in (if aiText' = [] then default_caption imagePrompt else aiText',
               Some generatedImageUrl)))"

section \<open>The world outside the components\<close>

text \<open>
  The components are clients of a document store (two collections, \<^verbatim>\<open>messages\<close> and
  \<^verbatim>\<open>chats\<close>) and of an HTTP backend. Both are state of the model: a handler takes the
  world and returns the world it leaves. What a call to the outside answers is not decided
  by the program, so it is read from an environment: \<open>db_fault env k\<close> is the error the
  \<open>k\<close>-th call to the store throws, if any, and \<open>net env k\<close> is what the \<open>k\<close>-th
  \<^verbatim>\<open>fetch\<close> finds. Every call to the outside is also appended to a trace, in the order
  of the calls. Output of \<^verbatim>\<open>console.log\<close> is not modelled.
\<close>

type_synonym doc_id = nat

datatype js_error = Error string

fun message :: "js_error \<Rightarrow> string" where
  "message (Error m) = m"

text \<open>The data of a document of \<^verbatim>\<open>messages\<close>. A boolean field is the truthiness of the
  JavaScript field, so a missing field is \<open>False\<close>. The collection holds each document
  with its id; an element of the \<^verbatim>\<open>messages\<close> state of the component is
  \<^verbatim>\<open>{ id: doc.id, ...doc.data() }\<close> or a placeholder that has no id.\<close>

record msg =
  sender :: string
  msg_text :: string
  createdAt :: "nat option"
  chatId :: "doc_id option"
  userId :: "string option"
  userName :: "string option"
  hasImage :: bool
  imageData :: "string option"
  imageUrl :: "string option"
  isError :: bool
  isWelcome :: bool

type_synonym msg_doc = "doc_id \<times> msg"

type_synonym msg_item = "doc_id option \<times> msg"

record chat =
  chat_userId :: string
  title :: "string option"
  chat_createdAt :: nat
  updatedAt :: nat
  lastMessage :: string
  lastSender :: string
  pinned :: bool
  category :: "string option"

text \<open>The fields an \<^verbatim>\<open>updateDoc\<close> on a chat may carry; every such call of the source also
  carries \<^verbatim>\<open>updatedAt: serverTimestamp()\<close>.\<close>

record patch =
  set_title :: "string option"
  set_lastMessage :: "string option"
  set_lastSender :: "string option"
  set_pinned :: "bool option"
  set_category :: "string option"

datatype part = TextPart string | InlineData string "string option"

record content =
  role :: "string option"
  parts :: "part list"

record payload =
  contents :: "content list"
  systemInstruction :: string

record response =
  status :: nat
  body_text :: "js_error + string"
  body_json :: "js_error + string option"

text \<open>\<open>body_text\<close> is the outcome of \<^verbatim>\<open>response.text()\<close>. \<open>body_json\<close> is the outcome of
  \<^verbatim>\<open>response.json()\<close> followed by the reads \<^verbatim>\<open>result.candidates?.[0]\<close> and
  \<^verbatim>\<open>candidate.content?.parts?.[0]?.text\<close>: an error when the body does not parse or is not
  an object, else the text of the first candidate if there is one.\<close>

datatype fetch_result = NetworkError js_error | Response response

datatype db_op =
    AddMessage msg
  | AddChat chat
  | UpdateChat doc_id patch
  | GetDocs doc_id nat
  | BatchDeleteMessages "doc_id list"
  | DeleteChat doc_id
  | BatchDeleteChats "doc_id list"

datatype event =
    Db db_op bool
  | Fetch string payload
  | Sleep nat
  | ConsoleError string
  | Alert string
  | Speak string
  | OnNewChat

record env =
  db_fault :: "nat \<Rightarrow> js_error option"
  net :: "nat \<Rightarrow> fetch_result"
  speech_available :: bool

record world =
  messages_col :: "msg_doc list"
  chats_col :: "doc_id \<rightharpoonup> chat"
  next_id :: doc_id
  now :: nat
  db_calls :: nat
  fetch_calls :: nat
  trace :: "event list"

definition emit :: "event list \<Rightarrow> world \<Rightarrow> world" where
  "emit es w = w\<lparr>trace := trace w @ es\<rparr>"

subsection \<open>The store\<close>

text \<open>
  \<open>messages_col\<close> lists the documents in the order of their creation, which is the order
  of \<^verbatim>\<open>createdAt\<close>; a query returns the matching documents in that order. A call that
  faults changes nothing (a batch is atomic). \<^verbatim>\<open>updateDoc\<close> fails on a document that does
  not exist; \<^verbatim>\<open>deleteDoc\<close> and a batched delete do not.
\<close>

definition db_call :: "env \<Rightarrow> db_op \<Rightarrow> world \<Rightarrow> js_error option \<times> world" where
  "db_call env op w =
     (let f = db_fault env (db_calls w)
      in (f, (emit [Db op (f = None)] w)\<lparr>db_calls := db_calls w + 1\<rparr>))"

definition addDoc_messages :: "env \<Rightarrow> msg \<Rightarrow> world \<Rightarrow> (js_error + doc_id) \<times> world" where
  "addDoc_messages env data w =
     (case db_call env (AddMessage data) w of
        (Some e, w1) \<Rightarrow> (Inl e, w1)
      | (None, w1) \<Rightarrow>
          (Inr (next_id w1),
           w1\<lparr>messages_col :=
                 messages_col w1 @ [(next_id w1, data\<lparr>createdAt := Some (now w1)\<rparr>)],
               next_id := next_id w1 + 1,
               now := now w1 + 1\<rparr>))"

definition addDoc_chats :: "env \<Rightarrow> chat \<Rightarrow> world \<Rightarrow> (js_error + doc_id) \<times> world" where
  "addDoc_chats env data w =
     (case db_call env (AddChat data) w of
        (Some e, w1) \<Rightarrow> (Inl e, w1)
      | (None, w1) \<Rightarrow>
          (Inr (next_id w1),
           w1\<lparr>chats_col :=
                 (chats_col w1)(next_id w1 \<mapsto> data\<lparr>chat_createdAt := now w1, updatedAt := now w1\<rparr>),
               next_id := next_id w1 + 1,
               now := now w1 + 1\<rparr>))"

definition apply_patch :: "patch \<Rightarrow> nat \<Rightarrow> chat \<Rightarrow> chat" where
  "apply_patch p t c =
     c\<lparr>title := (case set_title p of None \<Rightarrow> title c | Some v \<Rightarrow> Some v),
       lastMessage := (case set_lastMessage p of None \<Rightarrow> lastMessage c | Some v \<Rightarrow> v),
       lastSender := (case set_lastSender p of None \<Rightarrow> lastSender c | Some v \<Rightarrow> v),
       pinned := (case set_pinned p of None \<Rightarrow> pinned c | Some v \<Rightarrow> v),
       category := (case set_category p of None \<Rightarrow> category c | Some v \<Rightarrow> Some v),
       updatedAt := t\<rparr>"

definition updateDoc_chats :: "env \<Rightarrow> doc_id \<Rightarrow> patch \<Rightarrow> world \<Rightarrow> js_error option \<times> world" where
  "updateDoc_chats env cid p w =
     (case db_call env (UpdateChat cid p) w of
        (Some e, w1) \<Rightarrow> (Some e, w1)
      | (None, w1) \<Rightarrow>
          (case chats_col w1 cid of
             None \<Rightarrow> (Some (Error ''No document to update''), w1)
           | Some c \<Rightarrow>
               (None, w1\<lparr>chats_col := (chats_col w1)(cid \<mapsto> apply_patch p (now w1) c),
                         now := now w1 + 1\<rparr>)))"

definition getDocs_messages :: "env \<Rightarrow> doc_id \<Rightarrow> nat \<Rightarrow> world \<Rightarrow> (js_error + msg_doc list) \<times> world" where
  \<comment> \<open>\<^verbatim>\<open>getDocs(query(messagesCol, where('chatId', '==', chatId), limit(n)))\<close>\<close>
  "getDocs_messages env cid n w =
     (case db_call env (GetDocs cid n) w of
        (Some e, w1) \<Rightarrow> (Inl e, w1)
      | (None, w1) \<Rightarrow> (Inr (take n (filter (\<lambda>d. chatId (snd d) = Some cid) (messages_col w1))), w1))"

definition commit_delete_messages :: "env \<Rightarrow> doc_id list \<Rightarrow> world \<Rightarrow> js_error option \<times> world" where
  "commit_delete_messages env ids w =
     (case db_call env (BatchDeleteMessages ids) w of
        (Some e, w1) \<Rightarrow> (Some e, w1)
      | (None, w1) \<Rightarrow>
          (None, w1\<lparr>messages_col :=
                      filter (\<lambda>d. fst d \<notin> set ids) (messages_col w1)\<rparr>))"

definition deleteDoc_chats :: "env \<Rightarrow> doc_id \<Rightarrow> world \<Rightarrow> js_error option \<times> world" where
  "deleteDoc_chats env cid w =
     (case db_call env (DeleteChat cid) w of
        (Some e, w1) \<Rightarrow> (Some e, w1)
      | (None, w1) \<Rightarrow> (None, w1\<lparr>chats_col := (chats_col w1)(cid := None)\<rparr>))"


subsection \<open>The network\<close>

definition fetch :: "env \<Rightarrow> string \<Rightarrow> payload \<Rightarrow> world \<Rightarrow> fetch_result \<times> world" where
  "fetch env url p w =
     (net env (fetch_calls w), (emit [Fetch url p] w)\<lparr>fetch_calls := fetch_calls w + 1\<rparr>)"

definition response_ok :: "response \<Rightarrow> bool" where
  "response_ok r = (200 \<le> status r \<and> status r \<le> 299)"

section \<open>Backoff HTTP client (AIChat.jsx, fetchWithRetries)\<close>

text \<open>
  \<^verbatim>\<open>const fetchWithRetries = async (url, options, retries = 3) => {
    for (let i = 0; i < retries; i++) {
      try {
        const response = await fetch(url, options);
        if (response.ok) { return response; }
        // If not OK, throw error to trigger retry (unless it's a 4xx client error)
        if (response.status < 500) {
            // Log client error and stop retrying
            console.error('Client Error:', response.status, await response.text());
            throw new Error(`Client Error: ${response.status}`);
        }
        throw new Error(`Server Error: ${response.status}`);
      } catch (error) {
        if (i < retries - 1) {
          const delay = Math.pow(2, i) * 1000;
          await new Promise(resolve => setTimeout(resolve, delay));
        } else {
          throw error; // Re-throw last error after final attempt
        }
      }
    }
  };\<close>
  \<open>attempt\<close> is the body of the \<^verbatim>\<open>try\<close>: \<open>Inr\<close> the response it returns, \<open>Inl\<close> the error
  it throws into the \<^verbatim>\<open>catch\<close>. \<open>fetch_loop\<close> is the loop from a given \<open>i\<close>; a loop that
  ends without returning gives \<^verbatim>\<open>undefined\<close>, here \<open>Inr None\<close>.
\<close>

definition attempt :: "env \<Rightarrow> string \<Rightarrow> payload \<Rightarrow> world \<Rightarrow> (js_error + response) \<times> world" where
  "attempt env url p w =
     (case fetch env url p w of
        (NetworkError e, w1) \<Rightarrow> (Inl e, w1)
      | (Response r, w1) \<Rightarrow>
          if response_ok r then (Inr r, w1)
          else if status r < 500 then
            (case body_text r of
               Inl e \<Rightarrow> (Inl e, w1)
             | Inr t \<Rightarrow>
                 (Inl (Error (''Client Error: '' @ digits_of (status r))),
                  emit [ConsoleError ''Client Error:''] w1))
          else (Inl (Error (''Server Error: '' @ digits_of (status r))), w1))"

function fetch_loop ::
  "env \<Rightarrow> string \<Rightarrow> payload \<Rightarrow> nat \<Rightarrow> nat \<Rightarrow> world \<Rightarrow> (js_error + response option) \<times> world"
where
  "fetch_loop env url p retries i w =
     (if i < retries then
        (case fst (attempt env url p w) of
           Inr r \<Rightarrow> (Inr (Some r), snd (attempt env url p w))
         | Inl error \<Rightarrow>
             if i < retries - 1
             then fetch_loop env url p retries (i + 1)
                    (emit [Sleep (2 ^ i * 1000)] (snd (attempt env url p w)))
             else (Inl error, snd (attempt env url p w)))
      else (Inr None, w))"
  by pat_completeness auto
termination
  by (relation "measure (\<lambda>(env, url, p, retries, i, w). retries - i)") auto

declare fetch_loop.simps [simp del]

definition fetchWithRetries ::
  "env \<Rightarrow> string \<Rightarrow> payload \<Rightarrow> nat \<Rightarrow> world \<Rightarrow> (js_error + response option) \<times> world"
where
  "fetchWithRetries env url p retries w = fetch_loop env url p retries 0 w"

section \<open>Synchronization engine (AIChat.jsx)\<close>

record user =
  uid :: string
  name :: string

text \<open>The state of the component. A handler reads the values of the render it was created
  in and returns the state after its updates.\<close>

record app =
  messages :: "msg_item list"
  input :: string
  isLoading :: bool
  userMessageCount :: nat
  currentChatId :: "doc_id option"
  selectedImage :: "string option"
  speechEnabled :: bool

text \<open>The base URL is \<^verbatim>\<open>import.meta.env.VITE_API_BASE_URL || 'http://localhost:3001/api'\<close>;
  the model takes the default.\<close>

definition API_URL :: string where
  "API_URL = ''http://localhost:3001/api/chat''"

definition VISION_API_URL :: string where
  "VISION_API_URL = ''http://localhost:3001/api/vision''"

definition SYSTEM_INSTRUCTION :: string where
  "SYSTEM_INSTRUCTION =
     ''You are a helpful and friendly AI chat assistant. Keep your responses concise and engaging, and always answer truthfully and ethically. Respond using markdown. If the user asks you to generate, create, or draw an image, respond with ''
     @ [CHR 0x27] @ ''[IMAGE_REQUEST: description]'' @ [CHR 0x27]
     @ '' where description is a detailed prompt for the image they want.''"

definition user_uid :: "user option \<Rightarrow> string" where
  \<comment> \<open>\<^verbatim>\<open>user?.uid || ''\<close>\<close>
  "user_uid usr = (case usr of None \<Rightarrow> [] | Some u \<Rightarrow> uid u)"

definition user_name :: "user option \<Rightarrow> string" where
  \<comment> \<open>\<^verbatim>\<open>user?.name || ''\<close>\<close>
  "user_name usr = (case usr of None \<Rightarrow> [] | Some u \<Rightarrow> name u)"

definition plain_msg :: "string \<Rightarrow> string \<Rightarrow> msg" where
  \<comment> \<open>the object \<^verbatim>\<open>{ sender, text }\<close>, every other field absent\<close>
  "plain_msg s t =
     \<lparr>sender = s, msg_text = t, createdAt = None, chatId = None,
      userId = None, userName = None, hasImage = False, imageData = None, imageUrl = None,
      isError = False, isWelcome = False\<rparr>"

text \<open>
  The success callback of the message subscription: the documents of the chat in the order
  of \<^verbatim>\<open>createdAt\<close> or, when there is none, the welcome placeholder.
  \<^verbatim>\<open>if (msgs.length === 0) {
    msgs.push({ sender: 'ai',
      text: `Hello ${user?.name || 'there'}! I'm your AI assistant. Ask me anything!`,
      isWelcome: true });
  }
  setMessages(msgs);\<close>
\<close>

definition welcome_msg :: "user option \<Rightarrow> msg" where
  "welcome_msg usr =
     (plain_msg ''ai''
        (''Hello '' @ (if user_name usr = [] then ''there'' else user_name usr) @ ''! I''
           @ [CHR 0x27] @ ''m your AI assistant. Ask me anything!''))
     \<lparr>isWelcome := True\<rparr>"

definition onSnapshot_messages :: "user option \<Rightarrow> doc_id \<Rightarrow> world \<Rightarrow> app \<Rightarrow> app" where
  "onSnapshot_messages usr cid w st =
     (let msgs = map (\<lambda>d. (Some (fst d), snd d))
                   (filter (\<lambda>d. chatId (snd d) = Some cid) (messages_col w))
      in st\<lparr>messages := (if length msgs = 0 then msgs @ [(None, welcome_msg usr)] else msgs)\<rparr>)"

text \<open>
  The error callback of the same subscription:
  \<^verbatim>\<open>(error) => {
    console.error('Error loading messages:', error);
    console.error('Error details:', error.code, error.message);
    setMessages([{ sender: 'ai',
      text: `Error loading messages. Please check the console. Error: ${error.message}`,
      isWelcome: true }]);
  }\<close>
\<close>

definition onSnapshot_messages_error :: "js_error \<Rightarrow> app \<Rightarrow> world \<Rightarrow> app \<times> world" where
  "onSnapshot_messages_error error st w =
     (st\<lparr>messages :=
           [(None,
             (plain_msg ''ai''
                (''Error loading messages. Please check the console. Error: '' @ message error))
             \<lparr>isWelcome := True\<rparr>)]\<rparr>,
      emit [ConsoleError ''Error loading messages:'', ConsoleError ''Error details:''] w)"

text \<open>
  \<^verbatim>\<open>const formatHistoryForAPI = (currentMessages) => {
    return currentMessages.map(msg => ({
      role: msg.sender === 'user' ? 'user' : 'model',
      parts: [{ text: msg.text }]
    }));
  };\<close>
\<close>

definition formatHistoryForAPI :: "msg_item list \<Rightarrow> content list" where
  "formatHistoryForAPI currentMessages =
     map (\<lambda>m. \<lparr>role = Some (if sender (snd m) = ''user'' then ''user'' else ''model''),
               parts = [TextPart (msg_text (snd m))]\<rparr>) currentMessages"

text \<open>
  \<^verbatim>\<open>const createNewChat = async () => {
    try {
      const chatRef = await addDoc(collection(db, "chats"), {
        userId: user?.uid || '', title: 'New Chat',
        createdAt: serverTimestamp(), updatedAt: serverTimestamp(),
        lastMessage: '', lastSender: '', pinned: false, category: 'personal' });
      setCurrentChatId(chatRef.id);
      setMessages([]);
      return chatRef.id;
    } catch (error) {
      console.error('Error creating new chat:', error);
      console.error('Error details:', error.message, error.code);
      alert(`Failed to create chat: ${error.message}`);
      return null;
    }
  };\<close>
\<close>

definition createNewChat :: "env \<Rightarrow> user option \<Rightarrow> app \<Rightarrow> world \<Rightarrow> doc_id option \<times> app \<times> world" where
  "createNewChat env usr st w =
     (case addDoc_chats env
             \<lparr>chat_userId = user_uid usr, title = Some ''New Chat'', chat_createdAt = now w,
              updatedAt = now w, lastMessage = [], lastSender = [], pinned = False,
              category = Some ''personal''\<rparr> w of
        (Inr new_id, w1) \<Rightarrow> (Some new_id, st\<lparr>currentChatId := Some new_id, messages := []\<rparr>, w1)
      | (Inl error, w1) \<Rightarrow>
          (None, st,
           emit [ConsoleError ''Error creating new chat:'', ConsoleError ''Error details:'',
                 Alert (''Failed to create chat: '' @ message error)] w1))"

text \<open>A string or \<^verbatim>\<open>null\<close> used as a condition.\<close>

definition truthy :: "string option \<Rightarrow> bool" where
  "truthy v = (case v of None \<Rightarrow> False | Some s \<Rightarrow> s \<noteq> [])"

definition or_else :: "string \<Rightarrow> string \<Rightarrow> string" where
  \<comment> \<open>\<^verbatim>\<open>a || b\<close> on strings\<close>
  "or_else a b = (if a \<noteq> [] then a else b)"

fun split_second :: "string \<Rightarrow> string option" where
  \<comment> \<open>\<^verbatim>\<open>s.split(',')[1]\<close>: what stands between the first comma and the next\<close>
  "split_second [] = None"
| "split_second (c # cs) =
     (if c = CHR '','' then Some (takeWhile (\<lambda>d. d \<noteq> CHR '','') cs) else split_second cs)"

text \<open>
  Step 1 of \<^verbatim>\<open>handleSendMessage\<close>, the body of its first \<^verbatim>\<open>try\<close>: the user turn is
  written, then the chat's title (only when the messages on screen hold no turn but the
  welcome placeholder) and preview.
  \<^verbatim>\<open>const messageData = { sender: 'user', text: trimmedInput || '[Image]',
    createdAt: serverTimestamp(), chatId: currentChatId,
    userId: user?.uid || '', userName: user?.name || '' };
  if (selectedImage) { messageData.hasImage = true; messageData.imageData = selectedImage; }
  userMessageRef = await addDoc(collection(db, "messages"), messageData);
  const nonWelcomeMessages = messages.filter(m => !m.isWelcome);
  if (nonWelcomeMessages.length === 0) {
    const chatTitle = trimmedInput.length > 40
      ? trimmedInput.substring(0, 40) + '...'
      : trimmedInput || 'Image chat';
    await updateDoc(doc(db, "chats", currentChatId), { title: chatTitle,
      lastMessage: trimmedInput || '[Image]', lastSender: 'user', updatedAt: serverTimestamp() });
  } else {
    await updateDoc(doc(db, "chats", currentChatId), {
      lastMessage: trimmedInput || '[Image]', lastSender: 'user', updatedAt: serverTimestamp() });
  }\<close>
\<close>

definition chatTitle :: "string \<Rightarrow> string" where
  "chatTitle trimmedInput =
     (if length trimmedInput > 40 then take 40 trimmedInput @ ''...''
      else or_else trimmedInput ''Image chat'')"

definition userMessageData :: "user option \<Rightarrow> app \<Rightarrow> doc_id \<Rightarrow> string \<Rightarrow> msg" where
  "userMessageData usr st cid trimmedInput =
     (plain_msg ''user'' (or_else trimmedInput ''[Image]''))
     \<lparr>chatId := Some cid, userId := Some (user_uid usr), userName := Some (user_name usr),
      hasImage := truthy (selectedImage st),
      imageData := (if truthy (selectedImage st) then selectedImage st else None)\<rparr>"

definition userPatch :: "app \<Rightarrow> string \<Rightarrow> patch" where
  "userPatch st trimmedInput =
     (let nonWelcomeMessages = filter (\<lambda>m. \<not> isWelcome (snd m)) (messages st)
      in \<lparr>set_title = (if length nonWelcomeMessages = 0 then Some (chatTitle trimmedInput) else None),
          set_lastMessage = Some (or_else trimmedInput ''[Image]''),
          set_lastSender = Some ''user'',
          set_pinned = None, set_category = None\<rparr>)"

definition saveUserMessage ::
  "env \<Rightarrow> user option \<Rightarrow> app \<Rightarrow> doc_id \<Rightarrow> string \<Rightarrow> world \<Rightarrow> js_error option \<times> world"
where
  "saveUserMessage env usr st cid trimmedInput w =
     (case addDoc_messages env (userMessageData usr st cid trimmedInput) w of
        (Inl error, w1) \<Rightarrow> (Some error, w1)
      | (Inr userMessageRef, w1) \<Rightarrow> updateDoc_chats env cid (userPatch st trimmedInput) w1)"

text \<open>
  Step 2, the request:
  \<^verbatim>\<open>if (selectedImage) {
    apiUrl = VISION_API_URL;
    const base64Image = selectedImage.split(',')[1];
    payload = { contents: [{ parts: [
        { text: trimmedInput || "What's in this image?" },
        { inline_data: { mime_type: "image/jpeg", data: base64Image } } ] }],
      systemInstruction: { parts: [{ text: SYSTEM_INSTRUCTION }] } };
    handleRemoveImage();
  } else {
    const chatHistory = formatHistoryForAPI([
      ...messages.filter(m => !m.hasImage),
      { sender: 'user', text: trimmedInput } ]);
    payload = { contents: chatHistory,
      systemInstruction: { parts: [{ text: SYSTEM_INSTRUCTION }] } };
  }\<close>
  The result is \<^verbatim>\<open>apiUrl\<close>, \<^verbatim>\<open>payload\<close> and the state after \<^verbatim>\<open>handleRemoveImage\<close>.
\<close>

definition buildRequest :: "app \<Rightarrow> string \<Rightarrow> string \<times> payload \<times> app" where
  "buildRequest st trimmedInput =
     (if truthy (selectedImage st) then
        (VISION_API_URL,
         \<lparr>contents =
            [\<lparr>role = None,
              parts = [TextPart (or_else trimmedInput (''What'' @ [CHR 0x27] @ ''s in this image?'')),
                       InlineData ''image/jpeg''
                         (case selectedImage st of None \<Rightarrow> None | Some s \<Rightarrow> split_second s)]\<rparr>],
          systemInstruction = SYSTEM_INSTRUCTION\<rparr>,
         st\<lparr>selectedImage := None\<rparr>)
      else
        (API_URL,
         \<lparr>contents =
            formatHistoryForAPI
              (filter (\<lambda>m. \<not> hasImage (snd m)) (messages st)
                 @ [(None, plain_msg ''user'' trimmedInput)]),
          systemInstruction = SYSTEM_INSTRUCTION\<rparr>,
         st))"

text \<open>
  Steps 3 to 6, the rest of the second \<^verbatim>\<open>try\<close>: the call, the text of the first candidate
  (or the apology), the directive, the assistant turn and the preview. \<open>Some\<close> error is
  what the block throws into its \<^verbatim>\<open>catch\<close>.
  \<^verbatim>\<open>const response = await fetchWithRetries(apiUrl, { method: 'POST', ... });
  const result = await response.json();
  const candidate = result.candidates?.[0];
  let aiText = "I'm sorry, I couldn't generate a response.";
  if (candidate && candidate.content?.parts?.[0]?.text) {
    aiText = candidate.content.parts[0].text;
  }
  ... (the directive, see parseDirective)
  const aiMessageData = { sender: 'ai', text: aiText, createdAt: serverTimestamp(),
    chatId: currentChatId };
  if (generatedImageUrl) { aiMessageData.hasImage = true;
    aiMessageData.imageUrl = generatedImageUrl; }
  const aiMessageRef = await addDoc(collection(db, "messages"), aiMessageData);
  await updateDoc(doc(db, "chats", currentChatId), {
    lastMessage: generatedImageUrl ? `${aiText} [Image]` : aiText,
    lastSender: 'ai', updatedAt: serverTimestamp() });
  if (speechEnabled && 'speechSynthesis' in window) { speakText(aiText); }\<close>
\<close>

definition apology :: string where
  "apology = ''I'' @ [CHR 0x27] @ ''m sorry, I couldn'' @ [CHR 0x27] @ ''t generate a response.''"

definition candidateText :: "string option \<Rightarrow> string" where
  "candidateText c = (case c of None \<Rightarrow> apology | Some t \<Rightarrow> if t \<noteq> [] then t else apology)"

definition aiMessageData :: "doc_id \<Rightarrow> string \<Rightarrow> string option \<Rightarrow> msg" where
  "aiMessageData cid aiText generatedImageUrl =
     (plain_msg ''ai'' aiText)
     \<lparr>chatId := Some cid, hasImage := truthy generatedImageUrl,
      imageUrl := (if truthy generatedImageUrl then generatedImageUrl else None)\<rparr>"

definition aiPatch :: "string \<Rightarrow> string option \<Rightarrow> patch" where
  "aiPatch aiText generatedImageUrl =
     \<lparr>set_title = None,
      set_lastMessage = Some (if truthy generatedImageUrl then aiText @ '' [Image]'' else aiText),
      set_lastSender = Some ''ai'', set_pinned = None, set_category = None\<rparr>"

definition saveAiMessage ::
  "env \<Rightarrow> app \<Rightarrow> doc_id \<Rightarrow> string option \<Rightarrow> world \<Rightarrow> js_error option \<times> world"
where
  "saveAiMessage env st cid candidate w =
     (let (aiText, generatedImageUrl) = parseDirective (candidateText candidate)
      in case addDoc_messages env (aiMessageData cid aiText generatedImageUrl) w of
           (Inl error, w1) \<Rightarrow> (Some error, w1)
         | (Inr aiMessageRef, w1) \<Rightarrow>
             (case updateDoc_chats env cid (aiPatch aiText generatedImageUrl) w1 of
                (Some error, w2) \<Rightarrow> (Some error, w2)
              | (None, w2) \<Rightarrow>
                  (None, if speechEnabled st \<and> speech_available env
                         then emit [Speak aiText] w2 else w2)))"

definition callCompletion ::
  "env \<Rightarrow> string \<Rightarrow> payload \<Rightarrow> world \<Rightarrow> (js_error + string option) \<times> world"
where
  "callCompletion env apiUrl p w =
     (case fetchWithRetries env apiUrl p 3 w of
        (Inl error, w1) \<Rightarrow> (Inl error, w1)
      | (Inr None, w1) \<Rightarrow> (Inl (Error ''Cannot read properties of undefined''), w1)
      | (Inr (Some response), w1) \<Rightarrow> (body_json response, w1))"

definition assistantStep ::
  "env \<Rightarrow> app \<Rightarrow> doc_id \<Rightarrow> string \<Rightarrow> world \<Rightarrow> js_error option \<times> app \<times> world"
where
  "assistantStep env st cid trimmedInput w =
     (let (apiUrl, p, st1) = buildRequest st trimmedInput
      in case callCompletion env apiUrl p w of
           (Inl error, w1) \<Rightarrow> (Some error, st1, w1)
         | (Inr candidate, w1) \<Rightarrow>
             (case saveAiMessage env st cid candidate w1 of (err, w2) \<Rightarrow> (err, st1, w2)))"

text \<open>
  The \<^verbatim>\<open>catch\<close> of the second \<^verbatim>\<open>try\<close>, with a \<^verbatim>\<open>try\<close> of its own:
  \<^verbatim>\<open>try {
    const errorMessageRef = await addDoc(collection(db, "messages"), {
      sender: 'ai',
      text: `I encountered an error: ${error.message}. Please try again or check your connection.`,
      createdAt: serverTimestamp(), chatId: currentChatId, isError: true });
    await updateDoc(doc(db, "chats", currentChatId), {
      lastMessage: "Error occurred", lastSender: 'ai', updatedAt: serverTimestamp() });
  } catch (saveError) {
    console.error('Failed to save error message to Firestore:', saveError);
  }\<close>
\<close>

definition errorMessageData :: "doc_id \<Rightarrow> js_error \<Rightarrow> msg" where
  "errorMessageData cid error =
     (plain_msg ''ai''
        (''I encountered an error: '' @ message error
           @ ''. Please try again or check your connection.''))
     \<lparr>chatId := Some cid, isError := True\<rparr>"

definition errorPatch :: patch where
  "errorPatch =
     \<lparr>set_title = None, set_lastMessage = Some ''Error occurred'', set_lastSender = Some ''ai'',
      set_pinned = None, set_category = None\<rparr>"

definition saveErrorMessage :: "env \<Rightarrow> doc_id \<Rightarrow> js_error \<Rightarrow> world \<Rightarrow> world" where
  "saveErrorMessage env cid error w =
     (let w0 = emit [ConsoleError ''AI Chat Error:'', ConsoleError ''Error type:'',
                     ConsoleError ''Error message:''] w
      in case addDoc_messages env (errorMessageData cid error) w0 of
           (Inl saveError, w1) \<Rightarrow>
             emit [ConsoleError ''Failed to save error message to Firestore:''] w1
         | (Inr errorMessageRef, w1) \<Rightarrow>
             (case updateDoc_chats env cid errorPatch w1 of
                (Some saveError, w2) \<Rightarrow>
                  emit [ConsoleError ''Failed to save error message to Firestore:''] w2
              | (None, w2) \<Rightarrow> w2))"

text \<open>
  \<^verbatim>\<open>const handleSendMessage = async (e) => {
    e.preventDefault();
    const trimmedInput = input.trim();
    if ((!trimmedInput && !selectedImage) || isLoading) return;
    setInput('');
    setIsLoading(true);
    setUserMessageCount(prev => prev + 1);
    if (!currentChatId) {
      console.error('No chat ID available. Creating new chat...');
      const newChatId = await createNewChat();
      if (!newChatId) {
        alert('Failed to create chat. Please refresh the page.');
        setIsLoading(false);
        return;
      }
      setInput(trimmedInput);
      setIsLoading(false);
      return;
    }
    try { ... step 1 ... }
    catch (error) {
      console.error('Error saving user message:', error);
      setIsLoading(false);
      return;
    }
    try { ... steps 2 to 6 ... }
    catch (error) { ... the error turn ... }
    finally { setIsLoading(false); }
  };\<close>
  No exception leaves the handler: each of its awaits stands in a \<^verbatim>\<open>try\<close> (that of
  \<^verbatim>\<open>createNewChat\<close> in its own), so the handler returns a state and a world on every path.
\<close>

definition handleSendMessage :: "env \<Rightarrow> user option \<Rightarrow> app \<Rightarrow> world \<Rightarrow> app \<times> world" where
  "handleSendMessage env usr st w =
     (let trimmedInput = trim (input st)
      in if (trimmedInput = [] \<and> \<not> truthy (selectedImage st)) \<or> isLoading st then (st, w)
         else
           (let st1 = st\<lparr>input := [], isLoading := True,
                        userMessageCount := userMessageCount st + 1\<rparr>
            in case currentChatId st of
                 None \<Rightarrow>
                   (case createNewChat env usr st1
                           (emit [ConsoleError ''No chat ID available. Creating new chat...''] w) of
                      (None, st2, w1) \<Rightarrow>
                        (st2\<lparr>isLoading := False\<rparr>,
                         emit [Alert ''Failed to create chat. Please refresh the page.''] w1)
                    | (Some newChatId, st2, w1) \<Rightarrow>
                        (st2\<lparr>input := trimmedInput, isLoading := False\<rparr>, w1))
               | Some cid \<Rightarrow>
                   (case saveUserMessage env usr st cid trimmedInput w of
                      (Some error, w1) \<Rightarrow>
                        (st1\<lparr>isLoading := False\<rparr>,
                         emit [ConsoleError ''Error saving user message:''] w1)
                    | (None, w1) \<Rightarrow>
                        (case assistantStep env st1 cid trimmedInput w1 of
                           (None, st2, w2) \<Rightarrow> (st2\<lparr>isLoading := False\<rparr>, w2)
                         | (Some error, st2, w2) \<Rightarrow>
                             (st2\<lparr>isLoading := False\<rparr>, saveErrorMessage env cid error w2)))))"

text \<open>
  \<^verbatim>\<open>const handleSelectChat = (chatId) => {
    setCurrentChatId(chatId);
    setMessages([]);
  };\<close>
  The subscription of the selected chat delivers its first snapshot later.
\<close>

definition handleSelectChat :: "doc_id \<Rightarrow> app \<Rightarrow> app" where
  "handleSelectChat cid st = st\<lparr>currentChatId := Some cid, messages := []\<rparr>"

section \<open>Conversation registry view and cascading deletion (ChatHistory.jsx)\<close>

text \<open>An element of the \<^verbatim>\<open>chats\<close> state is \<^verbatim>\<open>{ id: doc.id, ...doc.data() }\<close>: the pair of the
  id and the document. The props \<^verbatim>\<open>user\<close> and \<^verbatim>\<open>currentChatId\<close> are arguments of the
  handlers; a call of the prop \<^verbatim>\<open>onNewChat\<close> is the event \<open>OnNewChat\<close>.\<close>

type_synonym chat_item = "doc_id \<times> chat"

record history =
  chats :: "chat_item list"
  searchQuery :: string
  selectedCategory :: string
  isClearing :: bool

text \<open>
  \<^verbatim>\<open>const filteredChats = chats.filter(chat => {
    const matchesSearch = chat.title?.toLowerCase().includes(searchQuery.toLowerCase());
    const matchesCategory = selectedCategory === 'all' || chat.category === selectedCategory;
    return matchesSearch && matchesCategory;
  });
  const sortedChats = [...filteredChats].sort((a, b) => {
    if (a.pinned && !b.pinned) return -1;
    if (!a.pinned && b.pinned) return 1;
    return 0;
  });\<close>
\<close>

definition matchesSearch :: "string \<Rightarrow> chat_item \<Rightarrow> bool" where
  "matchesSearch q c =
     (case title (snd c) of
        None \<Rightarrow> False
      | Some t \<Rightarrow> str_includes (toLowerCase t) (toLowerCase q))"

definition matchesCategory :: "string \<Rightarrow> chat_item \<Rightarrow> bool" where
  "matchesCategory sel c = (sel = ''all'' \<or> category (snd c) = Some sel)"

definition filteredChats :: "history \<Rightarrow> chat_item list" where
  "filteredChats h =
     filter (\<lambda>c. matchesSearch (searchQuery h) c \<and> matchesCategory (selectedCategory h) c)
       (chats h)"

definition pinned_compare :: "chat_item \<Rightarrow> chat_item \<Rightarrow> int" where
  "pinned_compare a b =
     (if pinned (snd a) \<and> \<not> pinned (snd b) then - 1
      else if \<not> pinned (snd a) \<and> pinned (snd b) then 1
      else 0)"

text \<open>\<^verbatim>\<open>Array.prototype.sort\<close> is stable, and under a comparator that orders the elements
  consistently every stable sort returns the same array. The model is the stable insertion
  sort: an element goes before the first element it does not compare greater than.\<close>

fun insert_by :: "('a \<Rightarrow> 'a \<Rightarrow> int) \<Rightarrow> 'a \<Rightarrow> 'a list \<Rightarrow> 'a list" where
  "insert_by cmp x [] = [x]"
| "insert_by cmp x (y # ys) = (if cmp x y \<le> 0 then x # y # ys else y # insert_by cmp x ys)"

definition array_sort :: "('a \<Rightarrow> 'a \<Rightarrow> int) \<Rightarrow> 'a list \<Rightarrow> 'a list" where
  "array_sort cmp xs = foldr (insert_by cmp) xs []"

definition sortedChats :: "history \<Rightarrow> chat_item list" where
  "sortedChats h = array_sort pinned_compare (filteredChats h)"

text \<open>
  The loop that both delete handlers run for one chat:
  \<^verbatim>\<open>const batchSize = 200;
  while (true) {
    const q = query(messagesCol, where('chatId', '==', chatId), limit(batchSize));
    const snapshot = await getDocs(q);
    if (snapshot.empty) break;
    const batch = writeBatch(db);
    snapshot.forEach(docSnap => batch.delete(doc(db, 'messages', docSnap.id)));
    await batch.commit();
    if (snapshot.size < batchSize) break;
  }\<close>
  \<open>deletePage\<close> is one turn of the loop: \<open>Inr\<close> the size of the snapshot, or \<open>Inl\<close> the error
  thrown by the query or the commit. \<open>drainMessages\<close> is the loop; \<open>Some\<close> error is what
  it throws.
\<close>

definition batchSize :: nat where
  "batchSize = 200"

definition deletePage :: "env \<Rightarrow> doc_id \<Rightarrow> world \<Rightarrow> (js_error + nat) \<times> world" where
  "deletePage env cid w =
     (case getDocs_messages env cid batchSize w of
        (Inl error, w1) \<Rightarrow> (Inl error, w1)
      | (Inr snapshot, w1) \<Rightarrow>
          if snapshot = [] then (Inr 0, w1)
          else (case commit_delete_messages env (map fst snapshot) w1 of
                  (Some error, w2) \<Rightarrow> (Inl error, w2)
                | (None, w2) \<Rightarrow> (Inr (length snapshot), w2)))"

definition remaining :: "doc_id \<Rightarrow> world \<Rightarrow> nat" where
  "remaining cid w = length (filter (\<lambda>d. chatId (snd d) = Some cid) (messages_col w))"

text \<open>Each turn of the loop that deletes a page leaves fewer documents of the chat, which is
  why the loop ends.\<close>

lemma filter_page_less:
  assumes "take n (filter P ms) \<noteq> []"
  shows "length (filter P (filter (\<lambda>d. fst d \<notin> set (map fst (take n (filter P ms)))) ms))
           < length (filter P ms)"
proof -
  let ?page = "take n (filter P ms)"
  let ?Q = "\<lambda>d. fst d \<notin> set (map fst ?page)"
  from assms obtain d where d: "d \<in> set ?page" by (cases ?page) auto
  then have "d \<in> set (filter P ms)" by (rule in_set_takeD)
  moreover from d have "\<not> ?Q d" by auto
  ultimately have "length (filter ?Q (filter P ms)) < length (filter P ms)"
    by (rule length_filter_less)
  moreover have "filter P (filter ?Q ms) = filter ?Q (filter P ms)"
    by (simp add: conj_commute)
  ultimately show ?thesis by simp
qed

lemma deletePage_remaining:
  assumes "deletePage env cid w = (Inr n, w')" and "n \<noteq> 0"
  shows "remaining cid w' < remaining cid w"
  using assms filter_page_less [of batchSize "\<lambda>d. chatId (snd d) = Some cid" "messages_col w"]
  by (auto simp: deletePage_def getDocs_messages_def commit_delete_messages_def db_call_def
        emit_def remaining_def Let_def conj_commute split: option.splits if_splits)

function drainMessages :: "env \<Rightarrow> doc_id \<Rightarrow> world \<Rightarrow> js_error option \<times> world" where
  "drainMessages env cid w =
     (case fst (deletePage env cid w) of
        Inl error \<Rightarrow> (Some error, snd (deletePage env cid w))
      | Inr n \<Rightarrow>
          if n = 0 then (None, snd (deletePage env cid w))
          else if n < batchSize then (None, snd (deletePage env cid w))
          else drainMessages env cid (snd (deletePage env cid w)))"
  by pat_completeness auto
termination
proof (relation "measure (\<lambda>(env, cid, w). remaining cid w)")
  show "wf (measure (\<lambda>(env, cid, w). remaining cid w))" by simp
next
  fix env cid w n
  assume "fst (deletePage env cid w) = Inr n" and "n \<noteq> 0"
  then show "((env, cid, snd (deletePage env cid w)), env, cid, w)
               \<in> measure (\<lambda>(env, cid, w). remaining cid w)"
    using deletePage_remaining [of env cid w n "snd (deletePage env cid w)"]
    by (cases "deletePage env cid w") simp
qed

declare drainMessages.simps [simp del]

text \<open>
  \<^verbatim>\<open>const handleDeleteChat = async (chatId, e) => {
    e.stopPropagation();
    if (!window.confirm('Delete this chat? This cannot be undone.')) return;
    try {
      ... the loop ...
      await deleteDoc(doc(db, "chats", chatId));
      if (chatId === currentChatId) { onNewChat(); }
    } catch (error) {
      console.error('Error deleting chat:', error);
    }
  };\<close>
  \<open>confirmed\<close> is the answer to \<^verbatim>\<open>window.confirm\<close>.
\<close>

definition handleDeleteChat :: "env \<Rightarrow> bool \<Rightarrow> doc_id option \<Rightarrow> doc_id \<Rightarrow> world \<Rightarrow> world" where
  "handleDeleteChat env confirmed current cid w =
     (if \<not> confirmed then w
      else case drainMessages env cid w of
             (Some error, w1) \<Rightarrow> emit [ConsoleError ''Error deleting chat:''] w1
           | (None, w1) \<Rightarrow>
               (case deleteDoc_chats env cid w1 of
                  (Some error, w2) \<Rightarrow> emit [ConsoleError ''Error deleting chat:''] w2
                | (None, w2) \<Rightarrow> if Some cid = current then emit [OnNewChat] w2 else w2))"

text \<open>
  \<^verbatim>\<open>const handleClearAllChats = async () => {
    if (isClearing) return;
    if (!window.confirm(confirmMessage)) return;
    if (!window.confirm('This is your last chance. Really delete ALL chats?')) return;
    setIsClearing(true);
    try {
      console.log('Clearing all chats for user:', user.uid);
      const chatIds = chats.map(chat => chat.id);
      const messagesCol = collection(db, 'messages');
      const batchSize = 200;
      for (const chatId of chatIds) {
        ... the loop, which also counts the documents for the log ...
      }
      const maxBatchSize = 500;
      for (let i = 0; i < chatIds.length; i += maxBatchSize) {
        const batchChatIds = chatIds.slice(i, i + maxBatchSize);
        const chatBatch = writeBatch(db);
        batchChatIds.forEach(chatId => { chatBatch.delete(doc(db, 'chats', chatId)); });
        await chatBatch.commit();
      }
      alert('All chats have been deleted successfully!');
      onNewChat();
    } catch (error) {
      console.error('Error clearing all chats:', error);
      console.error('Error details:', error.message, error.code);
      alert(`Failed to clear all chats: ${error.message}`);
    } finally {
      setIsClearing(false);
    }
  };\<close>
\<close>















section \<open>Notions of the statements\<close>



text \<open>An answer to \<^verbatim>\<open>fetch\<close> is transient when the transport fails or the status is 500 or
  more; \<open>thrown\<close> is the error the \<^verbatim>\<open>try\<close> block throws on it.\<close>

definition transient :: "fetch_result \<Rightarrow> bool" where
  "transient r = (case r of NetworkError e \<Rightarrow> True | Response resp \<Rightarrow> 500 \<le> status resp)"

definition thrown :: "fetch_result \<Rightarrow> js_error" where
  "thrown r =
     (case r of
        NetworkError e \<Rightarrow> e
      | Response resp \<Rightarrow> Error (''Server Error: '' @ digits_of (status resp)))"

definition after_fetch :: "string \<Rightarrow> payload \<Rightarrow> world \<Rightarrow> world" where
  "after_fetch url p w = w\<lparr>trace := trace w @ [Fetch url p], fetch_calls := fetch_calls w + 1\<rparr>"

text \<open>What the calls to the backend leave of the world: they add to the trace, but no call
  to the store, and to the count of the calls to \<^verbatim>\<open>fetch\<close>; nothing else changes.\<close>

fun is_db :: "event \<Rightarrow> bool" where
  "is_db (Db op ok) = True"
| "is_db e = False"

definition only_network :: "world \<Rightarrow> world \<Rightarrow> bool" where
  "only_network w w' =
     (messages_col w' = messages_col w \<and> chats_col w' = chats_col w \<and> next_id w' = next_id w
      \<and> now w' = now w \<and> db_calls w' = db_calls w
      \<and> (\<exists>es. trace w' = trace w @ es \<and> filter is_db es = []))"

text \<open>The documents of a chat, in the order of the collection.\<close>

definition docs_of :: "doc_id \<Rightarrow> world \<Rightarrow> msg_doc list" where
  "docs_of cid w = filter (\<lambda>d. chatId (snd d) = Some cid) (messages_col w)"

text \<open>One page, when neither the query nor the commit faults and document ids are unique.\<close>

definition after_page :: "doc_id \<Rightarrow> world \<Rightarrow> world" where
  "after_page cid w =
     w\<lparr>trace := trace w @ [Db (GetDocs cid batchSize) True,
                            Db (BatchDeleteMessages (map fst (take batchSize (docs_of cid w)))) True],
       db_calls := db_calls w + 2,
       messages_col :=
         filter (\<lambda>d. fst d \<notin> set (map fst (take batchSize (docs_of cid w)))) (messages_col w)\<rparr>"








definition healthy :: "env \<Rightarrow> world \<Rightarrow> bool" where
  "healthy env w = (\<forall>k. db_calls w \<le> k \<longrightarrow> db_fault env k = None)"






fun is_fetch :: "event \<Rightarrow> bool" where
  "is_fetch (Fetch url p) = True"
| "is_fetch e = False"


text \<open>Two worlds in which every chat has the same title.\<close>

definition same_titles :: "world \<Rightarrow> world \<Rightarrow> bool" where
  "same_titles w w' = (\<forall>k. map_option title (chats_col w' k) = map_option title (chats_col w k))"

section \<open>Worlds and environments of the examples\<close>

definition quiet_world :: world where
  "quiet_world =
     \<lparr>messages_col = [], chats_col = Map.empty, next_id = 0, now = 0, db_calls = 0,
      fetch_calls = 0, trace = []\<rparr>"

definition ping :: payload where
  "ping = \<lparr>contents = [\<lparr>role = Some ''user'', parts = [TextPart ''hi'']\<rparr>],
           systemInstruction = SYSTEM_INSTRUCTION\<rparr>"

definition status_env :: "nat \<Rightarrow> env" where
  \<comment> \<open>the store never faults and every response has the given status\<close>
  "status_env n =
     \<lparr>db_fault = (\<lambda>k. None),
      net = (\<lambda>k. Response \<lparr>status = n, body_text = Inr [], body_json = Inr None\<rparr>),
      speech_available = False\<rparr>"

definition example_chat :: "string option \<Rightarrow> bool \<Rightarrow> string \<Rightarrow> chat" where
  "example_chat t p c =
     \<lparr>chat_userId = ''u1'', title = t, chat_createdAt = 0, updatedAt = 0, lastMessage = [],
      lastSender = [], pinned = p, category = Some c\<rparr>"

definition example_history :: history where
  "example_history =
     \<lparr>chats = [(1, example_chat (Some ''Alpha notes'') False ''work''),
               (2, example_chat (Some ''beta plan'') True ''personal''),
               (3, example_chat None True ''work''),
               (4, example_chat (Some ''The ALPHABET'') True ''work''),
               (5, example_chat (Some ''alpha two'') False ''work''),
               (6, example_chat (Some ''alpha home'') True ''personal'')],
      searchQuery = ''alpha'', selectedCategory = ''work'', isClearing = False\<rparr>"

definition example_env :: "nat option \<Rightarrow> fetch_result \<Rightarrow> env" where
  "example_env fault_at answer =
     \<lparr>db_fault = (\<lambda>k. if Some k = fault_at then Some (Error ''unavailable'') else None),
      net = (\<lambda>k. answer), speech_available = False\<rparr>"

definition new_chat :: chat where
  "new_chat =
     \<lparr>chat_userId = ''u1'', title = Some ''New Chat'', chat_createdAt = 0, updatedAt = 0,
      lastMessage = [], lastSender = [], pinned = False, category = Some ''personal''\<rparr>"

definition one_chat_world :: world where
  "one_chat_world =
     \<lparr>messages_col = [], chats_col = [7 \<mapsto> new_chat], next_id = 8, now = 1, db_calls = 0,
      fetch_calls = 0, trace = []\<rparr>"

definition typing :: "string \<Rightarrow> app" where
  "typing txt =
     \<lparr>messages = [(None, welcome_msg None)], input = txt, isLoading = False,
      userMessageCount = 0, currentChatId = Some 7, selectedImage = None,
      speechEnabled = False\<rparr>"

definition server_error :: fetch_result where
  "server_error = Response \<lparr>status = 500, body_text = Inr [], body_json = Inr None\<rparr>"

definition failed_send :: "nat option \<Rightarrow> app \<times> world" where
  "failed_send fault_at =
     handleSendMessage (example_env fault_at server_error) None (typing ''hello'') one_chat_world"

definition answer_hi :: fetch_result where
  "answer_hi = Response \<lparr>status = 200, body_text = Inr [], body_json = Inr (Some ''Hi!'')\<rparr>"

definition long_chat_world :: world where
  "long_chat_world =
     \<lparr>messages_col = map (\<lambda>k. (k, (plain_msg ''user'' ''again'')\<lparr>chatId := Some 7\<rparr>)) [0..<450],
      chats_col = [7 \<mapsto> new_chat], next_id = 450, now = 451, db_calls = 0, fetch_calls = 0,
      trace = []\<rparr>"

definition long_chat_deleted :: world where
  "long_chat_deleted =
     handleDeleteChat (example_env None server_error) True (Some 7) 7 long_chat_world"







text \<open>The state \<^verbatim>\<open>handleSelectChat\<close> leaves, with a text typed before the subscription
  has delivered its first snapshot.\<close>

definition before_snapshot :: app where
  "before_snapshot = handleSelectChat 7 (typing ''hello'')"

definition titled_world :: world where
  "titled_world =
     \<lparr>messages_col =
        [(0, (plain_msg ''user'' ''Trip plan'')\<lparr>chatId := Some 7\<rparr>),
         (1, (plain_msg ''ai'' ''Where to?'')\<lparr>chatId := Some 7\<rparr>)],
      chats_col = [7 \<mapsto> new_chat\<lparr>title := Some ''Trip plan'', lastMessage := ''Where to?'',
                                    lastSender := ''ai''\<rparr>],
      next_id = 8, now = 5, db_calls = 0, fetch_calls = 0, trace = []\<rparr>"

section \<open>The backoff HTTP client: retries\<close>

lemma attempt_transient:
  assumes "transient (net env (fetch_calls w))"
  shows "attempt env url p w = (Inl (thrown (net env (fetch_calls w))), after_fetch url p w)"
  using assms
  by (cases "net env (fetch_calls w)")
     (simp_all add: attempt_def fetch_def emit_def transient_def thrown_def response_ok_def
        after_fetch_def)

lemma fetch_loop_retry:
  assumes "transient (net env (fetch_calls w))" and "i + 1 < retries"
  shows "fetch_loop env url p retries i w =
           fetch_loop env url p retries (i + 1) (emit [Sleep (2 ^ i * 1000)] (after_fetch url p w))"
proof -
  from assms(2) have "i < retries" and "i < retries - 1" by arith+
  with assms(1) show ?thesis
    by (subst fetch_loop.simps) (simp add: attempt_transient)
qed

lemma fetch_loop_last:
  assumes "transient (net env (fetch_calls w))" and "i + 1 = retries"
  shows "fetch_loop env url p retries i w =
           (Inl (thrown (net env (fetch_calls w))), after_fetch url p w)"
  using assms by (subst fetch_loop.simps) (auto simp add: attempt_transient)

text \<open>
  Claim C3. When each of the three answers is a response of status 500 or more or a failure
  of the transport, \<^verbatim>\<open>fetchWithRetries\<close> with its default of three retries calls \<^verbatim>\<open>fetch\<close>
  exactly three times, sleeps 1000 ms before the second call and 2000 ms before the third,
  and throws the error of the third attempt as it is: the transport's own error, or the
  \<^verbatim>\<open>Server Error\<close> made from the third response.
\<close>

theorem persistent_failure_three_attempts:
  assumes "\<forall>k<3. transient (net env (fetch_calls w + k))"
  shows "fetchWithRetries env url p 3 w =
           (Inl (thrown (net env (fetch_calls w + 2))),
            w\<lparr>trace := trace w @ [Fetch url p, Sleep 1000, Fetch url p, Sleep 2000, Fetch url p],
              fetch_calls := fetch_calls w + 3\<rparr>)"
proof -
  let ?w1 = "emit [Sleep (2 ^ 0 * 1000)] (after_fetch url p w)"
  let ?w2 = "emit [Sleep (2 ^ 1 * 1000)] (after_fetch url p ?w1)"
  have "transient (net env (fetch_calls w + 0))"
    and "transient (net env (fetch_calls w + 1))"
    and "transient (net env (fetch_calls w + 2))"
    using assms [rule_format, of 0] assms [rule_format, of 1] assms [rule_format, of 2]
    by simp_all
  then have t0: "transient (net env (fetch_calls w))"
    and t1: "transient (net env (fetch_calls ?w1))"
    and t2: "transient (net env (fetch_calls ?w2))"
    by (simp_all add: emit_def after_fetch_def)
  have "fetchWithRetries env url p 3 w = fetch_loop env url p 3 0 w"
    by (simp add: fetchWithRetries_def)
  also have "\<dots> = fetch_loop env url p 3 1 ?w1"
    using fetch_loop_retry [OF t0, of 0 3 url p] by simp
  also have "\<dots> = fetch_loop env url p 3 2 ?w2"
    using fetch_loop_retry [OF t1, of 1 3 url p] by (simp add: numeral_2_eq_2)
  also have "\<dots> = (Inl (thrown (net env (fetch_calls ?w2))), after_fetch url p ?w2)"
    using fetch_loop_last [OF t2, of 2 3 url p] by (simp add: numeral_2_eq_2)
  finally show ?thesis
    by (simp add: emit_def after_fetch_def)
qed

theorem persistent_failure_three_attempts_witness:
  "transient (net (status_env 500) 0) \<and> transient (net (status_env 500) 1)
   \<and> transient (net (status_env 500) 2)
   \<and> fst (fetchWithRetries (status_env 500) API_URL ping 3 quiet_world)
       = Inl (Error ''Server Error: 500'')
   \<and> trace (snd (fetchWithRetries (status_env 500) API_URL ping 3 quiet_world))
       = [Fetch API_URL ping, Sleep 1000, Fetch API_URL ping, Sleep 2000, Fetch API_URL ping]"
proof -
  have h: "\<forall>k<3. transient (net (status_env 500) (fetch_calls quiet_world + k))"
    by (simp add: transient_def status_env_def)
  have d: "digits_of 500 = ''500''"
    by code_simp
  have t: "transient (net (status_env 500) k)" for k
    by (simp add: transient_def status_env_def)
  show ?thesis
    using t persistent_failure_three_attempts [OF h, of API_URL ping]
    by (simp add: thrown_def status_env_def quiet_world_def d)
qed

text \<open>
  Claim C1. The claim says that a 4xx response ends the call after one attempt. In the
  source the \<^verbatim>\<open>throw new Error(`Client Error: ...`)\<close> stands inside the \<^verbatim>\<open>try\<close>, so the
  \<^verbatim>\<open>catch\<close> of the same statement takes it and retries like any other error: when every
  response is a 404, \<^verbatim>\<open>fetch\<close> is called three times, with the sleeps of 1000 ms and
  2000 ms between the calls, before the client error reaches the caller.
\<close>

theorem client_error_is_retried:
  "fetchWithRetries (status_env 404) API_URL ping 3 quiet_world =
     (Inl (Error ''Client Error: 404''),
      quiet_world\<lparr>trace :=
          [Fetch API_URL ping, ConsoleError ''Client Error:'', Sleep 1000,
           Fetch API_URL ping, ConsoleError ''Client Error:'', Sleep 2000,
           Fetch API_URL ping, ConsoleError ''Client Error:''],
        fetch_calls := 3\<rparr>)"
proof -
  have d: "digits_of 404 = ''404''"
    by code_simp
  have a: "attempt (status_env 404) url p w =
             (Inl (Error ''Client Error: 404''),
              w\<lparr>trace := trace w @ [Fetch url p, ConsoleError ''Client Error:''],
                fetch_calls := fetch_calls w + 1\<rparr>)" for url p w
    by (simp add: attempt_def fetch_def emit_def status_env_def response_ok_def d)
  show ?thesis
    by (simp add: fetchWithRetries_def fetch_loop.simps [of _ _ _ 3] a emit_def quiet_world_def)
qed

section \<open>The directive parser\<close>























section \<open>The registry view\<close>

lemma startsWith_append: "startsWith s p \<longleftrightarrow> (\<exists>r. s = p @ r)"
  by (induction s p rule: startsWith.induct) auto

lemma str_includes_iff: "str_includes s sub \<longleftrightarrow> (\<exists>a b. s = a @ sub @ b)"
proof (induction s)
  case Nil
  then show ?case by auto
next
  case (Cons c cs)
  show ?case
  proof
    assume "str_includes (c # cs) sub"
    then consider "startsWith (c # cs) sub" | "str_includes cs sub" by auto
    then show "\<exists>a b. c # cs = a @ sub @ b"
    proof cases
      case 1
      then obtain r where "c # cs = sub @ r" unfolding startsWith_append by (elim exE)
      then have "c # cs = [] @ sub @ r" by simp
      then show ?thesis by (intro exI)
    next
      case 2
      with Cons.IH have "\<exists>a b. cs = a @ sub @ b" by simp
      then obtain a b where "cs = a @ sub @ b" by (elim exE)
      then have "c # cs = (c # a) @ sub @ b" by simp
      then show ?thesis by (intro exI)
    qed
  next
    assume "\<exists>a b. c # cs = a @ sub @ b"
    then obtain a b where ab: "c # cs = a @ sub @ b" by (elim exE)
    show "str_includes (c # cs) sub"
    proof (cases a)
      case Nil
      with ab have "c # cs = sub @ b" by simp
      then have "startsWith (c # cs) sub" unfolding startsWith_append by (intro exI)
      then show ?thesis by simp
    next
      case (Cons d a')
      with ab have "cs = a' @ sub @ b" by simp
      then have "\<exists>a b. cs = a @ sub @ b" by (intro exI)
      with Cons.IH have "str_includes cs sub" by simp
      then show ?thesis by simp
    qed
  qed
qed

lemma insert_pinned:
  assumes "pinned (snd x)"
  shows "insert_by pinned_compare x ys = x # ys"
proof (cases ys)
  case Nil
  then show ?thesis by simp
next
  case (Cons y ys')
  from assms have "pinned_compare x y \<le> 0" by (simp add: pinned_compare_def)
  with Cons show ?thesis by simp
qed


lemma insert_unpinned:
  assumes "\<not> pinned (snd x)" and "\<forall>y\<in>set ps. pinned (snd y)" and "\<forall>y\<in>set us. \<not> pinned (snd y)"
  shows "insert_by pinned_compare x (ps @ us) = ps @ x # us"
  using assms
proof (induction ps)
  case Nil
  show ?case
  proof (cases us)
    case Nil
    then show ?thesis by simp
  next
    case (Cons u us')
    with Nil.prems have "pinned_compare x u \<le> 0" by (simp add: pinned_compare_def)
    with Cons show ?thesis by simp
  qed
next
  case (Cons p ps)
  then have "\<not> pinned_compare x p \<le> 0" by (simp add: pinned_compare_def)
  with Cons show ?case by simp
qed


lemma array_sort_pinned:
  "array_sort pinned_compare xs =
     filter (\<lambda>c. pinned (snd c)) xs @ filter (\<lambda>c. \<not> pinned (snd c)) xs"
proof (induction xs)
  case Nil
  then show ?case by (simp add: array_sort_def)
next
  case (Cons x xs)
  let ?ps = "filter (\<lambda>c. pinned (snd c)) xs"
  let ?us = "filter (\<lambda>c. \<not> pinned (snd c)) xs"
  from Cons have ih: "foldr (insert_by pinned_compare) xs [] = ?ps @ ?us"
    by (simp add: array_sort_def)
  have step: "array_sort pinned_compare (x # xs) = insert_by pinned_compare x (?ps @ ?us)"
    by (simp add: array_sort_def ih)
  show ?case
  proof (cases "pinned (snd x)")
    case True
    with step show ?thesis by (simp add: insert_pinned)
  next
    case False
    have "insert_by pinned_compare x (?ps @ ?us) = ?ps @ x # ?us"
      using False by (rule insert_unpinned) simp_all
    with step False show ?thesis by simp
  qed
qed

text \<open>
  Claim C9. For every list of chats, search query and selected category, the filtered list
  keeps, in their order, exactly the chats whose title exists and, in lower case, contains
  the query in lower case, and whose category is the selected one (every chat when \<open>all\<close>
  is selected); the sorted list is the pinned chats of the filtered list followed by its
  unpinned chats, each group in the order it has in the filtered list.
\<close>

theorem pinned_first_view:
  "filteredChats h =
     filter (\<lambda>c. (\<exists>t a b. title (snd c) = Some t
                       \<and> toLowerCase t = a @ toLowerCase (searchQuery h) @ b)
                 \<and> (selectedCategory h = ''all'' \<or> category (snd c) = Some (selectedCategory h)))
       (chats h)
   \<and> sortedChats h =
       filter (\<lambda>c. pinned (snd c)) (filteredChats h)
         @ filter (\<lambda>c. \<not> pinned (snd c)) (filteredChats h)"
proof
  have "matchesSearch q c \<longleftrightarrow>
          (\<exists>t a b. title (snd c) = Some t \<and> toLowerCase t = a @ toLowerCase q @ b)" for q c
    by (cases "title (snd c)") (simp_all add: matchesSearch_def str_includes_iff)
  then show "filteredChats h =
     filter (\<lambda>c. (\<exists>t a b. title (snd c) = Some t
                       \<and> toLowerCase t = a @ toLowerCase (searchQuery h) @ b)
                 \<and> (selectedCategory h = ''all'' \<or> category (snd c) = Some (selectedCategory h)))
       (chats h)"
    by (simp add: filteredChats_def matchesCategory_def)
next
  show "sortedChats h =
       filter (\<lambda>c. pinned (snd c)) (filteredChats h)
         @ filter (\<lambda>c. \<not> pinned (snd c)) (filteredChats h)"
    by (simp add: sortedChats_def array_sort_pinned)
qed

theorem pinned_first_view_witness:
  "sortedChats example_history =
     [(4, example_chat (Some ''The ALPHABET'') True ''work''),
      (1, example_chat (Some ''Alpha notes'') False ''work''),
      (5, example_chat (Some ''alpha two'') False ''work'')]"
proof -
  have f: "filteredChats example_history =
     [(1, example_chat (Some ''Alpha notes'') False ''work''),
      (4, example_chat (Some ''The ALPHABET'') True ''work''),
      (5, example_chat (Some ''alpha two'') False ''work'')]"
    by code_simp
  show ?thesis
    using pinned_first_view [of example_history, THEN conjunct2]
    by (simp add: f example_chat_def)
qed

section \<open>The synchronization engine\<close>

lemma addDoc_messages_ok:
  assumes "db_fault env (db_calls w) = None"
  shows "addDoc_messages env data w =
           (Inr (next_id w),
            w\<lparr>trace := trace w @ [Db (AddMessage data) True],
              db_calls := db_calls w + 1,
              messages_col := messages_col w @ [(next_id w, data\<lparr>createdAt := Some (now w)\<rparr>)],
              next_id := next_id w + 1,
              now := now w + 1\<rparr>)"
  using assms by (simp add: addDoc_messages_def db_call_def emit_def)

lemma addDoc_messages_fault:
  assumes "db_fault env (db_calls w) = Some e"
  shows "addDoc_messages env data w =
           (Inl e, w\<lparr>trace := trace w @ [Db (AddMessage data) False], db_calls := db_calls w + 1\<rparr>)"
  using assms by (simp add: addDoc_messages_def db_call_def emit_def)

lemma updateDoc_chats_ok:
  assumes "db_fault env (db_calls w) = None" and "chats_col w cid = Some c"
  shows "updateDoc_chats env cid p w =
           (None,
            w\<lparr>trace := trace w @ [Db (UpdateChat cid p) True],
              db_calls := db_calls w + 1,
              chats_col := (chats_col w)(cid \<mapsto> apply_patch p (now w) c),
              now := now w + 1\<rparr>)"
  using assms by (simp add: updateDoc_chats_def db_call_def emit_def)

lemma updateDoc_chats_fault:
  assumes "db_fault env (db_calls w) = Some e"
  shows "updateDoc_chats env cid p w =
           (Some e, w\<lparr>trace := trace w @ [Db (UpdateChat cid p) False], db_calls := db_calls w + 1\<rparr>)"
  using assms by (simp add: updateDoc_chats_def db_call_def emit_def)

lemma only_network_refl: "only_network w w"
  by (simp add: only_network_def)

lemma only_network_trans:
  assumes "only_network w w1" and "only_network w1 w2"
  shows "only_network w w2"
proof -
  from assms obtain es1 es2 where "trace w1 = trace w @ es1" "filter is_db es1 = []"
    "trace w2 = trace w1 @ es2" "filter is_db es2 = []"
    by (auto simp: only_network_def)
  then have "trace w2 = trace w @ (es1 @ es2) \<and> filter is_db (es1 @ es2) = []" by simp
  then have "\<exists>es. trace w2 = trace w @ es \<and> filter is_db es = []" by (rule exI)
  with assms show ?thesis by (simp add: only_network_def)
qed

lemma only_network_emit:
  assumes "filter is_db es = []"
  shows "only_network w (emit es w)"
  using assms by (simp add: only_network_def emit_def)

lemma only_network_fetch: "only_network w (snd (fetch env url p w))"
proof -
  have "trace (snd (fetch env url p w)) = trace w @ [Fetch url p] \<and> filter is_db [Fetch url p] = []"
    by (simp add: fetch_def emit_def)
  then have "\<exists>es. trace (snd (fetch env url p w)) = trace w @ es \<and> filter is_db es = []"
    by (rule exI)
  then show ?thesis by (simp add: only_network_def fetch_def emit_def)
qed

lemma attempt_cases:
  "snd (attempt env url p w) = snd (fetch env url p w)
   \<or> snd (attempt env url p w) = emit [ConsoleError ''Client Error:''] (snd (fetch env url p w))"
  by (cases "net env (fetch_calls w)")
     (auto simp: attempt_def fetch_def split: sum.splits)

lemma only_network_attempt: "only_network w (snd (attempt env url p w))"
  using attempt_cases [of env url p w]
proof
  assume "snd (attempt env url p w) = snd (fetch env url p w)"
  then show ?thesis by (simp add: only_network_fetch)
next
  assume "snd (attempt env url p w) = emit [ConsoleError ''Client Error:''] (snd (fetch env url p w))"
  moreover have "only_network (snd (fetch env url p w))
                   (emit [ConsoleError ''Client Error:''] (snd (fetch env url p w)))"
    by (rule only_network_emit) simp
  ultimately show ?thesis
    using only_network_trans [OF only_network_fetch] by simp
qed

lemma only_network_fetch_loop: "only_network w (snd (fetch_loop env url p retries i w))"
proof (induction env url p retries i w rule: fetch_loop.induct)
  case (1 env url p retries i w)
  let ?a = "attempt env url p w"
  let ?w1 = "emit [Sleep (2 ^ i * 1000)] (snd ?a)"
  have a: "only_network w (snd ?a)" by (rule only_network_attempt)
  have s: "only_network (snd ?a) ?w1" by (rule only_network_emit) simp
  show ?case
  proof (cases "i < retries")
    case False
    then show ?thesis by (subst fetch_loop.simps) (simp add: only_network_refl)
  next
    case True
    show ?thesis
    proof (cases "fst ?a")
      case (Inr r)
      with True a show ?thesis by (subst fetch_loop.simps) simp
    next
      case (Inl error)
      show ?thesis
      proof (cases "i < retries - 1")
        case False
        with True Inl a show ?thesis by (subst fetch_loop.simps) simp
      next
        case retry: True
        from "1.IH" [OF True Inl retry]
        have "only_network ?w1 (snd (fetch_loop env url p retries (i + 1) ?w1))" .
        with a s have "only_network w (snd (fetch_loop env url p retries (i + 1) ?w1))"
          by (blast intro: only_network_trans)
        with True Inl retry show ?thesis by (subst fetch_loop.simps) simp
      qed
    qed
  qed
qed

lemma callCompletion_cases:
  "snd (callCompletion env url p w) = snd (fetchWithRetries env url p 3 w)"
  by (cases "fetchWithRetries env url p 3 w")
     (auto simp: callCompletion_def split: sum.splits option.splits)

lemma only_network_callCompletion: "only_network w (snd (callCompletion env url p w))"
  by (simp add: callCompletion_cases fetchWithRetries_def only_network_fetch_loop)

lemma saveUserMessage_fault:
  assumes "db_fault env (db_calls w) = Some e"
  shows "saveUserMessage env usr st cid ti w =
           (Some e,
            w\<lparr>trace := trace w @ [Db (AddMessage (userMessageData usr st cid ti)) False],
              db_calls := db_calls w + 1\<rparr>)"
  using assms by (simp add: saveUserMessage_def addDoc_messages_fault)

lemma handleSendMessage_started:
  assumes "currentChatId st = Some cid" and "\<not> isLoading st"
    and "trim (input st) \<noteq> [] \<or> truthy (selectedImage st)"
  shows "handleSendMessage env usr st w =
     (let ti = trim (input st);
          st1 = st\<lparr>input := [], isLoading := True, userMessageCount := userMessageCount st + 1\<rparr>
      in case saveUserMessage env usr st cid ti w of
           (Some error, w1) \<Rightarrow>
             (st1\<lparr>isLoading := False\<rparr>, emit [ConsoleError ''Error saving user message:''] w1)
         | (None, w1) \<Rightarrow>
             (case assistantStep env st1 cid ti w1 of
                (None, st2, w2) \<Rightarrow> (st2\<lparr>isLoading := False\<rparr>, w2)
              | (Some error, st2, w2) \<Rightarrow>
                  (st2\<lparr>isLoading := False\<rparr>, saveErrorMessage env cid error w2)))"
  using assms by (auto simp: handleSendMessage_def Let_def)

lemma updateDoc_chats_None:
  assumes "fst (updateDoc_chats env cid p w) = None"
  shows "chats_col (snd (updateDoc_chats env cid p w)) cid \<noteq> None"
  using assms
  by (auto simp: updateDoc_chats_def db_call_def emit_def Let_def split: option.splits)

lemma saveUserMessage_None:
  assumes "fst (saveUserMessage env usr st cid ti w) = None"
  shows "chats_col (snd (saveUserMessage env usr st cid ti w)) cid \<noteq> None"
proof (cases "addDoc_messages env (userMessageData usr st cid ti) w")
  case (Pair r w1)
  show ?thesis
  proof (cases r)
    case (Inl e)
    with Pair assms show ?thesis by (simp add: saveUserMessage_def)
  next
    case (Inr k)
    with Pair assms updateDoc_chats_None [of env cid "userPatch st ti" w1]
    show ?thesis by (simp add: saveUserMessage_def)
  qed
qed

lemma assistantStep_error:
  assumes "fst (callCompletion env (fst (buildRequest st1 ti)) (fst (snd (buildRequest st1 ti))) w1)
             = Inl error"
  shows "assistantStep env st1 cid ti w1 =
           (Some error, snd (snd (buildRequest st1 ti)),
            snd (callCompletion env (fst (buildRequest st1 ti)) (fst (snd (buildRequest st1 ti))) w1))"
  using assms
  by (cases "buildRequest st1 ti";
      cases "callCompletion env (fst (buildRequest st1 ti)) (fst (snd (buildRequest st1 ti))) w1")
     (simp add: assistantStep_def)

lemma buildRequest_isLoading:
  "snd (snd (buildRequest st ti)) = st \<or> snd (snd (buildRequest st ti)) = st\<lparr>selectedImage := None\<rparr>"
  by (simp add: buildRequest_def)

lemma saveErrorMessage_ok:
  assumes "db_fault env (db_calls w) = None" and "db_fault env (db_calls w + 1) = None"
    and "chats_col w cid = Some c"
  shows "saveErrorMessage env cid error w =
           w\<lparr>trace := trace w
                @ [ConsoleError ''AI Chat Error:'', ConsoleError ''Error type:'',
                   ConsoleError ''Error message:'',
                   Db (AddMessage (errorMessageData cid error)) True,
                   Db (UpdateChat cid errorPatch) True],
             db_calls := db_calls w + 2,
             messages_col := messages_col w
                @ [(next_id w, (errorMessageData cid error)\<lparr>createdAt := Some (now w)\<rparr>)],
             next_id := next_id w + 1,
             chats_col := (chats_col w)(cid \<mapsto> apply_patch errorPatch (now w + 1) c),
             now := now w + 2\<rparr>"
  using assms
  by (simp add: saveErrorMessage_def Let_def emit_def addDoc_messages_ok updateDoc_chats_ok)

lemma saveErrorMessage_fault:
  assumes "db_fault env (db_calls w) = Some e"
  shows "saveErrorMessage env cid error w =
           w\<lparr>trace := trace w
                @ [ConsoleError ''AI Chat Error:'', ConsoleError ''Error type:'',
                   ConsoleError ''Error message:'',
                   Db (AddMessage (errorMessageData cid error)) False,
                   ConsoleError ''Failed to save error message to Firestore:''],
             db_calls := db_calls w + 1\<rparr>"
  using assms
  by (simp add: saveErrorMessage_def Let_def emit_def addDoc_messages_fault)

text \<open>
  Claim C7. When the write of the user turn faults, \<^verbatim>\<open>handleSendMessage\<close> logs the error
  and returns with \<^verbatim>\<open>isLoading\<close> false: the collections are as they were (no user turn,
  no error turn, no change of the chat), and \<^verbatim>\<open>fetch\<close> has not been called.
\<close>

theorem user_write_failure_aborts:
  assumes "currentChatId st = Some cid" and "\<not> isLoading st"
    and "trim (input st) \<noteq> [] \<or> truthy (selectedImage st)"
    and "db_fault env (db_calls w) = Some e"
  shows "handleSendMessage env usr st w =
           (st\<lparr>input := [], isLoading := False, userMessageCount := userMessageCount st + 1\<rparr>,
            w\<lparr>trace := trace w
                 @ [Db (AddMessage (userMessageData usr st cid (trim (input st)))) False,
                    ConsoleError ''Error saving user message:''],
              db_calls := db_calls w + 1\<rparr>)
         \<and> messages_col (snd (handleSendMessage env usr st w)) = messages_col w
         \<and> chats_col (snd (handleSendMessage env usr st w)) = chats_col w
         \<and> fetch_calls (snd (handleSendMessage env usr st w)) = fetch_calls w
         \<and> isLoading (fst (handleSendMessage env usr st w)) = False"
proof -
  have "handleSendMessage env usr st w =
           (st\<lparr>input := [], isLoading := False, userMessageCount := userMessageCount st + 1\<rparr>,
            w\<lparr>trace := trace w
                 @ [Db (AddMessage (userMessageData usr st cid (trim (input st)))) False,
                    ConsoleError ''Error saving user message:''],
              db_calls := db_calls w + 1\<rparr>)"
    using assms(4)
    by (simp add: handleSendMessage_started [OF assms(1-3)] saveUserMessage_fault emit_def)
  then show ?thesis by simp
qed

theorem user_write_failure_aborts_witness:
  "failed_send (Some 0) =
     ((typing ''hello'')\<lparr>input := [], userMessageCount := 1\<rparr>,
      one_chat_world\<lparr>trace :=
          [Db (AddMessage (userMessageData None (typing ''hello'') 7 ''hello'')) False,
           ConsoleError ''Error saving user message:''],
        db_calls := 1\<rparr>)"
proof -
  have t: "trim (input (typing ''hello'')) = ''hello''"
    by (simp add: typing_def trim_def is_white_space_def)
  have "currentChatId (typing ''hello'') = Some 7" and "\<not> isLoading (typing ''hello'')"
    and "trim (input (typing ''hello'')) \<noteq> [] \<or> truthy (selectedImage (typing ''hello''))"
    and "db_fault (example_env (Some 0) server_error) (db_calls one_chat_world)
           = Some (Error ''unavailable'')"
    by (simp_all add: t) (simp_all add: typing_def example_env_def one_chat_world_def)
  from user_write_failure_aborts [OF this, of None] show ?thesis
    by (simp add: failed_send_def t) (simp add: typing_def one_chat_world_def)
qed

text \<open>
  Claim C6. Let the user turn be written and the completion call (the retried
  \<^verbatim>\<open>fetch\<close> and the reading of the response) throw an error. The handler always returns
  with \<^verbatim>\<open>isLoading\<close> false. When the two writes of the \<^verbatim>\<open>catch\<close> block do not fault, the
  handler has appended one assistant turn with \<^verbatim>\<open>isError\<close> whose text embeds the message of
  the error, and the chat has the preview \<open>Error occurred\<close> with last sender \<open>ai\<close> and
  its title unchanged. When the append of the error turn faults, nothing is written: the
  failure is logged to the console and the handler returns all the same.
\<close>

theorem completion_failure_becomes_error_turn:
  fixes env usr st w cid error
  defines "ti \<equiv> trim (input st)"
  defines "st1 \<equiv> st\<lparr>input := [], isLoading := True, userMessageCount := userMessageCount st + 1\<rparr>"
  defines "w1 \<equiv> snd (saveUserMessage env usr st cid ti w)"
  defines "w2 \<equiv> snd (callCompletion env (fst (buildRequest st1 ti))
                         (fst (snd (buildRequest st1 ti))) w1)"
  defines "result \<equiv> handleSendMessage env usr st w"
  assumes chat: "currentChatId st = Some cid" and idle: "\<not> isLoading st"
    and typed: "ti \<noteq> [] \<or> truthy (selectedImage st)"
    and saved: "fst (saveUserMessage env usr st cid ti w) = None"
    and failed: "fst (callCompletion env (fst (buildRequest st1 ti))
                        (fst (snd (buildRequest st1 ti))) w1) = Inl error"
  shows "isLoading (fst result) = False
    \<and> (db_fault env (db_calls w2) = None \<and> db_fault env (db_calls w2 + 1) = None \<longrightarrow>
         (\<exists>m c c'. messages_col (snd result) = messages_col w2 @ [(next_id w2, m)]
            \<and> sender m = ''ai'' \<and> isError m \<and> chatId m = Some cid
            \<and> msg_text m = ''I encountered an error: '' @ message error
                              @ ''. Please try again or check your connection.''
            \<and> chats_col w2 cid = Some c \<and> chats_col (snd result) cid = Some c'
            \<and> lastMessage c' = ''Error occurred'' \<and> lastSender c' = ''ai''
            \<and> title c' = title c))
    \<and> (db_fault env (db_calls w2) \<noteq> None \<longrightarrow>
         messages_col (snd result) = messages_col w2
         \<and> chats_col (snd result) = chats_col w2
         \<and> trace (snd result) =
             trace w2 @ [ConsoleError ''AI Chat Error:'', ConsoleError ''Error type:'',
                         ConsoleError ''Error message:'',
                         Db (AddMessage (errorMessageData cid error)) False,
                         ConsoleError ''Failed to save error message to Firestore:''])"
proof -
  let ?st2 = "snd (snd (buildRequest st1 ti))"
  have run: "result = (?st2\<lparr>isLoading := False\<rparr>, saveErrorMessage env cid error w2)"
    using saved assistantStep_error [OF failed, of cid]
    unfolding result_def handleSendMessage_started [OF chat idle typed [unfolded ti_def]]
    by (cases "saveUserMessage env usr st cid ti w")
       (simp add: Let_def ti_def st1_def w1_def w2_def)
  then have idle': "isLoading (fst result) = False" by simp
  have "chats_col w1 cid \<noteq> None"
    unfolding w1_def using saved by (rule saveUserMessage_None)
  moreover have "only_network w1 w2"
    unfolding w2_def by (rule only_network_callCompletion)
  ultimately obtain c where c: "chats_col w2 cid = Some c"
    by (auto simp: only_network_def)
  have ok: "\<exists>m c c'. messages_col (snd result) = messages_col w2 @ [(next_id w2, m)]
            \<and> sender m = ''ai'' \<and> isError m \<and> chatId m = Some cid
            \<and> msg_text m = ''I encountered an error: '' @ message error
                              @ ''. Please try again or check your connection.''
            \<and> chats_col w2 cid = Some c \<and> chats_col (snd result) cid = Some c'
            \<and> lastMessage c' = ''Error occurred'' \<and> lastSender c' = ''ai''
            \<and> title c' = title c"
    if "db_fault env (db_calls w2) = None" "db_fault env (db_calls w2 + 1) = None"
    using c
    by (intro exI [of _ "(errorMessageData cid error)\<lparr>createdAt := Some (now w2)\<rparr>"]
          exI [of _ c] exI [of _ "apply_patch errorPatch (now w2 + 1) c"])
       (simp add: run saveErrorMessage_ok [OF that c] errorMessageData_def plain_msg_def
          apply_patch_def errorPatch_def)
  have bad: "messages_col (snd result) = messages_col w2
         \<and> chats_col (snd result) = chats_col w2
         \<and> trace (snd result) =
             trace w2 @ [ConsoleError ''AI Chat Error:'', ConsoleError ''Error type:'',
                         ConsoleError ''Error message:'',
                         Db (AddMessage (errorMessageData cid error)) False,
                         ConsoleError ''Failed to save error message to Firestore:'']"
    if "db_fault env (db_calls w2) \<noteq> None"
  proof -
    from that obtain e where "db_fault env (db_calls w2) = Some e" by auto
    then show ?thesis by (simp add: run saveErrorMessage_fault)
  qed
  from idle' ok bad show ?thesis by blast
qed

theorem completion_failure_becomes_error_turn_witness:
  "isLoading (fst (failed_send None)) = False
   \<and> isError (snd (last (messages_col (snd (failed_send None)))))
   \<and> msg_text (snd (last (messages_col (snd (failed_send None))))) =
       ''I encountered an error: Server Error: 500. Please try again or check your connection.''
   \<and> map_option lastMessage (chats_col (snd (failed_send None)) 7) = Some ''Error occurred''
   \<and> isLoading (fst (failed_send (Some 2))) = False
   \<and> length (messages_col (snd (failed_send (Some 2)))) = 1"
proof -
  let ?st = "typing ''hello''"
  let ?st1 = "?st\<lparr>input := [], isLoading := True, userMessageCount := userMessageCount ?st + 1\<rparr>"
  let ?ti = "trim (input ?st)"
  have t: "?ti = ''hello''"
    by (simp add: typing_def trim_def is_white_space_def)
  have chat: "currentChatId ?st = Some 7" and idle: "\<not> isLoading ?st"
    and typed: "?ti \<noteq> [] \<or> truthy (selectedImage ?st)"
    by (simp_all add: t) (simp_all add: typing_def)
  let ?w1 = "\<lambda>f. snd (saveUserMessage (example_env f server_error) None ?st 7 ?ti one_chat_world)"
  let ?w2 = "\<lambda>f. snd (callCompletion (example_env f server_error) (fst (buildRequest ?st1 ?ti))
                       (fst (snd (buildRequest ?st1 ?ti))) (?w1 f))"
  have saved: "fst (saveUserMessage (example_env f server_error) None ?st 7 ?ti one_chat_world) = None"
    if "f = None \<or> f = Some 2" for f
    using that by (auto simp: saveUserMessage_def addDoc_messages_def db_call_def emit_def
        example_env_def one_chat_world_def updateDoc_chats_def Let_def)
  have failed: "fst (callCompletion (example_env None server_error) (fst (buildRequest ?st1 ?ti))
                       (fst (snd (buildRequest ?st1 ?ti))) (?w1 None)) = Inl (Error ''Server Error: 500'')"
    by code_simp
  have failed2: "fst (callCompletion (example_env (Some 2) server_error) (fst (buildRequest ?st1 ?ti))
                       (fst (snd (buildRequest ?st1 ?ti))) (?w1 (Some 2))) = Inl (Error ''Server Error: 500'')"
    by code_simp
  have calls2: "db_calls (?w2 (Some 2)) = 2"
    by code_simp
  have msgs2: "length (messages_col (?w2 (Some 2))) = 1"
    by code_simp
  have saved1: "fst (saveUserMessage (example_env None server_error) None ?st 7 ?ti one_chat_world) = None"
    by (rule saved) simp
  have saved2: "fst (saveUserMessage (example_env (Some 2) server_error) None ?st 7 ?ti one_chat_world) = None"
    by (rule saved) simp
  note good = completion_failure_becomes_error_turn
                [OF chat idle typed saved1 failed, folded failed_send_def]
  note bad = completion_failure_becomes_error_turn
                [OF chat idle typed saved2 failed2, folded failed_send_def]
  have "db_fault (example_env None server_error) k = None" for k
    by (simp add: example_env_def)
  with good have g: "isLoading (fst (failed_send None)) = False"
    "\<exists>m c c'. messages_col (snd (failed_send None)) = messages_col (?w2 None) @ [(next_id (?w2 None), m)]
            \<and> sender m = ''ai'' \<and> isError m \<and> chatId m = Some 7
            \<and> msg_text m = ''I encountered an error: '' @ message (Error ''Server Error: 500'')
                              @ ''. Please try again or check your connection.''
            \<and> chats_col (?w2 None) 7 = Some c \<and> chats_col (snd (failed_send None)) 7 = Some c'
            \<and> lastMessage c' = ''Error occurred'' \<and> lastSender c' = ''ai''
            \<and> title c' = title c"
    by simp_all
  have "db_fault (example_env (Some 2) server_error) (db_calls (?w2 (Some 2))) \<noteq> None"
    by (subst calls2) (simp add: example_env_def)
  with bad have b: "isLoading (fst (failed_send (Some 2))) = False"
    "messages_col (snd (failed_send (Some 2))) = messages_col (?w2 (Some 2))"
    by simp_all
  from g b msgs2 show ?thesis by auto
qed

subsection \<open>What is sent to the backend\<close>

lemma prefix_trace_emit: "prefix (trace w) (trace (emit es w))"
  by (simp add: emit_def)

lemma prefix_trace_addDoc_messages: "prefix (trace w) (trace (snd (addDoc_messages env d w)))"
  by (cases "db_fault env (db_calls w)")
     (simp_all add: addDoc_messages_def db_call_def emit_def)

lemma prefix_trace_updateDoc_chats: "prefix (trace w) (trace (snd (updateDoc_chats env cid p w)))"
  by (cases "db_fault env (db_calls w)"; cases "chats_col w cid")
     (simp_all add: updateDoc_chats_def db_call_def emit_def)

lemma prefix_trace_saveAiMessage:
  "prefix (trace w) (trace (snd (saveAiMessage env st cid candidate w)))"
proof -
  obtain aiText url where pd: "parseDirective (candidateText candidate) = (aiText, url)"
    by (cases "parseDirective (candidateText candidate)")
  let ?a = "addDoc_messages env (aiMessageData cid aiText url) w"
  let ?u = "updateDoc_chats env cid (aiPatch aiText url) (snd ?a)"
  have 1: "prefix (trace w) (trace (snd ?a))" by (rule prefix_trace_addDoc_messages)
  have 2: "prefix (trace (snd ?a)) (trace (snd ?u))" by (rule prefix_trace_updateDoc_chats)
  have 3: "prefix (trace (snd ?u)) (trace (emit [Speak aiText] (snd ?u)))"
    by (rule prefix_trace_emit)
  from 1 2 have 12: "prefix (trace w) (trace (snd ?u))" by (rule prefix_order.trans)
  from 12 3 have 123: "prefix (trace w) (trace (emit [Speak aiText] (snd ?u)))"
    by (rule prefix_order.trans)
  show ?thesis
    using 1 12 123
    by (cases ?a; cases "fst ?a"; cases ?u; cases "fst ?u")
       (auto simp: saveAiMessage_def pd)
qed

lemma prefix_trace_saveErrorMessage:
  "prefix (trace w) (trace (saveErrorMessage env cid error w))"
proof -
  let ?w0 = "emit [ConsoleError ''AI Chat Error:'', ConsoleError ''Error type:'',
                     ConsoleError ''Error message:''] w"
  let ?a = "addDoc_messages env (errorMessageData cid error) ?w0"
  let ?u = "updateDoc_chats env cid errorPatch (snd ?a)"
  let ?f = "emit [ConsoleError ''Failed to save error message to Firestore:'']"
  have 0: "prefix (trace w) (trace ?w0)" by (rule prefix_trace_emit)
  have "prefix (trace ?w0) (trace (snd ?a))" by (rule prefix_trace_addDoc_messages)
  with 0 have 1: "prefix (trace w) (trace (snd ?a))" by (rule prefix_order.trans)
  have "prefix (trace (snd ?a)) (trace (snd ?u))" by (rule prefix_trace_updateDoc_chats)
  with 1 have 2: "prefix (trace w) (trace (snd ?u))" by (rule prefix_order.trans)
  have "prefix (trace (snd ?a)) (trace (?f (snd ?a)))" by (rule prefix_trace_emit)
  with 1 have 3: "prefix (trace w) (trace (?f (snd ?a)))" by (rule prefix_order.trans)
  have "prefix (trace (snd ?u)) (trace (?f (snd ?u)))" by (rule prefix_trace_emit)
  with 2 have 4: "prefix (trace w) (trace (?f (snd ?u)))" by (rule prefix_order.trans)
  show ?thesis
    using 2 3 4
    by (cases ?a; cases "fst ?a"; cases ?u; cases "fst ?u")
       (auto simp: saveErrorMessage_def Let_def)
qed

lemma only_network_prefix:
  assumes "only_network w w'"
  shows "prefix (trace w) (trace w')"
  using assms by (auto simp: only_network_def)

lemma first_fetch:
  assumes "i < retries"
  shows "prefix (trace w @ [Fetch url p]) (trace (snd (fetch_loop env url p retries i w)))"
proof -
  let ?a = "attempt env url p w"
  let ?w1 = "emit [Sleep (2 ^ i * 1000)] (snd ?a)"
  have a: "prefix (trace w @ [Fetch url p]) (trace (snd ?a))"
    using attempt_cases [of env url p w] by (auto simp: fetch_def emit_def)
  have "prefix (trace (snd ?a)) (trace ?w1)" by (rule prefix_trace_emit)
  moreover have "prefix (trace ?w1) (trace (snd (fetch_loop env url p retries (i + 1) ?w1)))"
    by (rule only_network_prefix) (rule only_network_fetch_loop)
  ultimately have "prefix (trace (snd ?a)) (trace (snd (fetch_loop env url p retries (i + 1) ?w1)))"
    by (rule prefix_order.trans)
  with a have r: "prefix (trace w @ [Fetch url p])
                    (trace (snd (fetch_loop env url p retries (i + 1) ?w1)))"
    by (rule prefix_order.trans)
  from assms a r show ?thesis
    by (subst fetch_loop.simps) (simp split: sum.splits)
qed

lemma first_fetch_assistantStep:
  "prefix (trace w @ [Fetch (fst (buildRequest st ti)) (fst (snd (buildRequest st ti)))])
     (trace (snd (snd (assistantStep env st cid ti w))))"
proof -
  obtain url p st1 where br: "buildRequest st ti = (url, p, st1)"
    by (cases "buildRequest st ti") auto
  let ?c = "callCompletion env url p w"
  have c: "prefix (trace w @ [Fetch url p]) (trace (snd ?c))"
    unfolding callCompletion_cases fetchWithRetries_def by (rule first_fetch) simp
  show ?thesis
  proof (cases "fst ?c")
    case (Inl error)
    with c show ?thesis by (cases ?c) (simp add: assistantStep_def br)
  next
    case (Inr candidate)
    have "prefix (trace (snd ?c)) (trace (snd (saveAiMessage env st cid candidate (snd ?c))))"
      by (rule prefix_trace_saveAiMessage)
    with c have "prefix (trace w @ [Fetch url p])
                   (trace (snd (saveAiMessage env st cid candidate (snd ?c))))"
      by (rule prefix_order.trans)
    with Inr show ?thesis
      by (cases ?c; cases "saveAiMessage env st cid candidate (snd ?c)")
         (simp add: assistantStep_def br)
  qed
qed

lemma first_fetch_handleSendMessage:
  assumes chat: "currentChatId st = Some cid" and idle: "\<not> isLoading st"
    and typed: "trim (input st) \<noteq> [] \<or> truthy (selectedImage st)"
    and saved: "fst (saveUserMessage env usr st cid (trim (input st)) w) = None"
  shows "prefix
           (trace (snd (saveUserMessage env usr st cid (trim (input st)) w))
              @ [Fetch (fst (buildRequest st (trim (input st))))
                   (fst (snd (buildRequest st (trim (input st)))))])
           (trace (snd (handleSendMessage env usr st w)))"
proof -
  let ?ti = "trim (input st)"
  let ?st1 = "st\<lparr>input := [], isLoading := True, userMessageCount := userMessageCount st + 1\<rparr>"
  let ?w1 = "snd (saveUserMessage env usr st cid ?ti w)"
  let ?a = "assistantStep env ?st1 cid ?ti ?w1"
  have same: "fst (buildRequest (st\<lparr>input := a, isLoading := b, userMessageCount := c\<rparr>) ?ti)
                = fst (buildRequest st ?ti)"
    "fst (snd (buildRequest (st\<lparr>input := a, isLoading := b, userMessageCount := c\<rparr>) ?ti))
                = fst (snd (buildRequest st ?ti))" for a b c
    by (simp_all add: buildRequest_def)
  have a: "prefix (trace ?w1 @ [Fetch (fst (buildRequest st ?ti))
                                   (fst (snd (buildRequest st ?ti)))])
             (trace (snd (snd ?a)))"
    using first_fetch_assistantStep [of ?w1 ?st1 ?ti env cid] by (simp add: same)
  show ?thesis
  proof (cases "fst ?a")
    case None
    with saved a show ?thesis
      unfolding handleSendMessage_started [OF chat idle typed]
      by (cases "saveUserMessage env usr st cid ?ti w"; cases ?a)
         (simp add: Let_def)
  next
    case (Some error)
    have "prefix (trace (snd (snd ?a))) (trace (saveErrorMessage env cid error (snd (snd ?a))))"
      by (rule prefix_trace_saveErrorMessage)
    with a have "prefix (trace ?w1 @ [Fetch (fst (buildRequest st ?ti))
                                        (fst (snd (buildRequest st ?ti)))])
                   (trace (saveErrorMessage env cid error (snd (snd ?a))))"
      by (simp add: prefix_order.trans)
    with saved Some show ?thesis
      unfolding handleSendMessage_started [OF chat idle typed]
      by (cases "saveUserMessage env usr st cid ?ti w"; cases ?a)
         (simp add: Let_def)
  qed
qed

lemma prefix_snoc_nth:
  assumes "prefix (xs @ [x]) ys"
  shows "ys ! length xs = x"
proof -
  from assms obtain zs where "ys = (xs @ [x]) @ zs" by (auto simp: prefix_def)
  then show ?thesis by simp
qed

text \<open>
  Claim C10, amended. Let the log of the chat be empty and let the messages on screen be
  what the subscription sets for that log, the welcome placeholder alone; let a text be
  sent with no image. Once the user turn is written, the first call of the handler to the
  backend goes to the text endpoint, and its history starts with the welcome placeholder
  under the role \<open>model\<close>, followed by the new text under the role \<open>user\<close>. The history
  is built from the messages on screen, not from the log, which is why the screen is part
  of the condition.
\<close>

theorem welcome_turn_is_sent:
  assumes chat: "currentChatId st = Some cid" and idle: "\<not> isLoading st"
    and typed: "trim (input st) \<noteq> []" and text_only: "\<not> truthy (selectedImage st)"
    and empty_log: "remaining cid w = 0"
    and view: "messages st = messages (onSnapshot_messages usr cid w st)"
    and saved: "fst (saveUserMessage env usr st cid (trim (input st)) w) = None"
  shows "isWelcome (welcome_msg usr) \<and> messages st = [(None, welcome_msg usr)]
    \<and> prefix
         (trace (snd (saveUserMessage env usr st cid (trim (input st)) w))
            @ [Fetch API_URL
                 \<lparr>contents =
                    [\<lparr>role = Some ''model'', parts = [TextPart (msg_text (welcome_msg usr))]\<rparr>,
                     \<lparr>role = Some ''user'', parts = [TextPart (trim (input st))]\<rparr>],
                  systemInstruction = SYSTEM_INSTRUCTION\<rparr>])
         (trace (snd (handleSendMessage env usr st w)))"
proof -
  from empty_log view have m: "messages st = [(None, welcome_msg usr)]"
    by (simp add: onSnapshot_messages_def remaining_def Let_def)
  have w: "isWelcome (welcome_msg usr)" "\<not> hasImage (welcome_msg usr)"
    "sender (welcome_msg usr) = ''ai''"
    by (simp_all add: welcome_msg_def plain_msg_def)
  from text_only m w have
    "buildRequest st (trim (input st)) =
       (API_URL,
        \<lparr>contents =
           [\<lparr>role = Some ''model'', parts = [TextPart (msg_text (welcome_msg usr))]\<rparr>,
            \<lparr>role = Some ''user'', parts = [TextPart (trim (input st))]\<rparr>],
         systemInstruction = SYSTEM_INSTRUCTION\<rparr>,
        st)"
    by (simp add: buildRequest_def formatHistoryForAPI_def plain_msg_def)
  with first_fetch_handleSendMessage [OF chat idle _ saved] typed m w(1)
  show ?thesis by simp
qed

theorem welcome_turn_is_sent_witness:
  "trace (snd (handleSendMessage (example_env None answer_hi) None (typing ''hello'')
                 one_chat_world)) ! 2 =
     Fetch API_URL
       \<lparr>contents =
          [\<lparr>role = Some ''model'',
            parts = [TextPart (''Hello there! I'' @ [CHR 0x27]
                                 @ ''m your AI assistant. Ask me anything!'')]\<rparr>,
           \<lparr>role = Some ''user'', parts = [TextPart ''hello'']\<rparr>],
        systemInstruction = SYSTEM_INSTRUCTION\<rparr>"
proof -
  let ?st = "typing ''hello''"
  let ?env = "example_env None answer_hi"
  have t: "trim (input ?st) = ''hello''"
    by (simp add: typing_def trim_def is_white_space_def)
  have chat: "currentChatId ?st = Some 7" and idle: "\<not> isLoading ?st"
    and typed: "trim (input ?st) \<noteq> []" and text_only: "\<not> truthy (selectedImage ?st)"
    and empty_log: "remaining 7 one_chat_world = 0"
    and view: "messages ?st = messages (onSnapshot_messages None 7 one_chat_world ?st)"
    by (simp_all add: t)
       (simp_all add: typing_def truthy_def remaining_def one_chat_world_def
          onSnapshot_messages_def)
  have save: "saveUserMessage ?env None ?st 7 (trim (input ?st)) one_chat_world =
      (None,
       snd (saveUserMessage ?env None ?st 7 (trim (input ?st)) one_chat_world))"
    "length (trace (snd (saveUserMessage ?env None ?st 7 (trim (input ?st)) one_chat_world))) = 2"
    by (simp_all add: saveUserMessage_def addDoc_messages_def db_call_def emit_def
        example_env_def one_chat_world_def updateDoc_chats_def Let_def)
  then have saved: "fst (saveUserMessage ?env None ?st 7 (trim (input ?st)) one_chat_world) = None"
    by (metis fst_conv)
  from welcome_turn_is_sent [OF chat idle typed text_only empty_log view saved]
  have "prefix
         (trace (snd (saveUserMessage ?env None ?st 7 (trim (input ?st)) one_chat_world))
            @ [Fetch API_URL
                 \<lparr>contents =
                    [\<lparr>role = Some ''model'', parts = [TextPart (msg_text (welcome_msg None))]\<rparr>,
                     \<lparr>role = Some ''user'', parts = [TextPart (trim (input ?st))]\<rparr>],
                  systemInstruction = SYSTEM_INSTRUCTION\<rparr>])
         (trace (snd (handleSendMessage ?env None ?st one_chat_world)))"
    by simp
  from prefix_snoc_nth [OF this] show ?thesis
    by (simp add: save(2) [unfolded t] t welcome_msg_def plain_msg_def user_name_def)
qed

text \<open>
  Counterexample to claim C10 as it is written, for every chat whose log is empty. In the
  state \<^verbatim>\<open>handleSelectChat\<close> leaves, as \<^verbatim>\<open>createNewChat\<close> does, the messages on screen are
  the empty list until the subscription delivers its first snapshot. The log of chat 7 is
  empty, a text is sent and the text endpoint is used, but the only request to the backend
  carries the new text alone: the welcome placeholder is not in its history.
\<close>

theorem welcome_turn_missing_before_snapshot:
  "remaining 7 one_chat_world = 0
   \<and> messages before_snapshot = []
   \<and> filter is_fetch
        (trace (snd (handleSendMessage (example_env None answer_hi) None before_snapshot
                       one_chat_world))) =
       [Fetch API_URL
          \<lparr>contents = [\<lparr>role = Some ''user'', parts = [TextPart ''hello'']\<rparr>],
           systemInstruction = SYSTEM_INSTRUCTION\<rparr>]"
  by code_simp

section \<open>Cascading deletion\<close>

lemma remaining_docs_of: "remaining cid w = length (docs_of cid w)"
  by (simp add: remaining_def docs_of_def)

lemma filter_out_prefix_ids:
  assumes "distinct (map fst (xs @ ys))"
  shows "filter (\<lambda>d. fst d \<notin> set (map fst xs)) (xs @ ys) = ys"
proof -
  have "filter (\<lambda>d. fst d \<notin> set (map fst xs)) xs = []"
    by (simp add: filter_empty_conv)
  moreover from assms have "\<forall>d\<in>set ys. fst d \<notin> set (map fst xs)"
    by auto
  then have "filter (\<lambda>d. fst d \<notin> set (map fst xs)) ys = ys"
    by (simp add: filter_id_conv)
  ultimately show ?thesis by simp
qed

lemma delete_page_docs:
  assumes "distinct (map fst ms)"
  shows "filter P (filter (\<lambda>d. fst d \<notin> set (map fst (take n (filter P ms)))) ms)
           = drop n (filter P ms)"
proof -
  let ?F = "filter P ms"
  let ?Q = "\<lambda>d. fst d \<notin> set (map fst (take n ?F))"
  from assms have "distinct (map fst ?F)" by (rule distinct_map_filter)
  then have "distinct (map fst (take n ?F @ drop n ?F))" by simp
  then have "filter ?Q (take n ?F @ drop n ?F) = drop n ?F"
    by (rule filter_out_prefix_ids)
  then have "filter ?Q ?F = drop n ?F" by simp
  moreover have "filter P (filter ?Q ms) = filter ?Q ?F"
    by (simp add: conj_commute)
  ultimately show ?thesis by simp
qed

lemma getDocs_messages_ok:
  assumes "db_fault env (db_calls w) = None"
  shows "getDocs_messages env cid n w =
           (Inr (take n (docs_of cid w)),
            w\<lparr>trace := trace w @ [Db (GetDocs cid n) True], db_calls := db_calls w + 1\<rparr>)"
  using assms by (simp add: getDocs_messages_def db_call_def emit_def docs_of_def)

lemma commit_delete_messages_ok:
  assumes "db_fault env (db_calls w) = None"
  shows "commit_delete_messages env ids w =
           (None,
            w\<lparr>trace := trace w @ [Db (BatchDeleteMessages ids) True],
              db_calls := db_calls w + 1,
              messages_col := filter (\<lambda>d. fst d \<notin> set ids) (messages_col w)\<rparr>)"
  using assms by (simp add: commit_delete_messages_def db_call_def emit_def)

lemma deleteDoc_chats_ok:
  assumes "db_fault env (db_calls w) = None"
  shows "deleteDoc_chats env cid w =
           (None,
            w\<lparr>trace := trace w @ [Db (DeleteChat cid) True],
              db_calls := db_calls w + 1,
              chats_col := (chats_col w)(cid := None)\<rparr>)"
  using assms by (simp add: deleteDoc_chats_def db_call_def emit_def)

lemma deletePage_ok:
  assumes "db_fault env (db_calls w) = None" and "db_fault env (db_calls w + 1) = None"
    and "docs_of cid w \<noteq> []"
  shows "deletePage env cid w = (Inr (min batchSize (length (docs_of cid w))), after_page cid w)"
  using assms
  by (simp add: deletePage_def getDocs_messages_ok commit_delete_messages_ok after_page_def
        batchSize_def)

lemma after_page_docs:
  assumes "distinct (map fst (messages_col w))"
  shows "docs_of cid (after_page cid w) = drop batchSize (docs_of cid w)"
    and "distinct (map fst (messages_col (after_page cid w)))"
  using assms delete_page_docs [OF assms, of "\<lambda>d. chatId (snd d) = Some cid" batchSize]
  by (simp_all add: docs_of_def after_page_def distinct_map_filter)

lemma drainMessages_full_page:
  assumes "db_fault env (db_calls w) = None" and "db_fault env (db_calls w + 1) = None"
    and "batchSize \<le> length (docs_of cid w)"
  shows "drainMessages env cid w = drainMessages env cid (after_page cid w)"
proof -
  from assms(3) have "docs_of cid w \<noteq> []" by (auto simp: batchSize_def)
  from deletePage_ok [OF assms(1,2) this] assms(3) show ?thesis
    by (subst drainMessages.simps) (simp add: batchSize_def)
qed

lemma drainMessages_last_page:
  assumes "db_fault env (db_calls w) = None" and "db_fault env (db_calls w + 1) = None"
    and "docs_of cid w \<noteq> []" and "length (docs_of cid w) < batchSize"
  shows "drainMessages env cid w = (None, after_page cid w)"
  using deletePage_ok [OF assms(1-3)] assms(3,4)
  by (subst drainMessages.simps) (simp add: batchSize_def)

lemma after_page_frame:
  "db_calls (after_page cid w) = db_calls w + 2"
  "chats_col (after_page cid w) = chats_col w"
  "trace (after_page cid w) =
     trace w @ [Db (GetDocs cid batchSize) True,
                Db (BatchDeleteMessages (map fst (take batchSize (docs_of cid w)))) True]"
  by (simp_all add: after_page_def)

text \<open>
  Claim C5. Let a chat have exactly 450 turns, the ids of the documents be unique, the
  user confirm, and none of the seven calls to the store fault. Then \<^verbatim>\<open>handleDeleteChat\<close>
  issues exactly three page queries with limit 200, each followed by the batch that
  deletes the page (200, 200 and 50 documents); the third page is shorter than 200, so
  the loop stops without a fourth query, and only then the chat document is deleted. No
  turn of the chat is left.
\<close>

theorem delete_450_turns_three_pages:
  assumes size: "remaining cid w = 450"
    and unique: "distinct (map fst (messages_col w))"
    and healthy: "\<forall>k<7. db_fault env (db_calls w + k) = None"
  shows "trace (handleDeleteChat env True current cid w) =
           trace w
           @ [Db (GetDocs cid 200) True,
              Db (BatchDeleteMessages (map fst (take 200 (docs_of cid w)))) True,
              Db (GetDocs cid 200) True,
              Db (BatchDeleteMessages (map fst (take 200 (drop 200 (docs_of cid w))))) True,
              Db (GetDocs cid 200) True,
              Db (BatchDeleteMessages (map fst (drop 400 (docs_of cid w)))) True,
              Db (DeleteChat cid) True]
           @ (if Some cid = current then [OnNewChat] else [])
     \<and> length (take 200 (docs_of cid w)) = 200
     \<and> length (take 200 (drop 200 (docs_of cid w))) = 200
     \<and> length (drop 400 (docs_of cid w)) = 50
     \<and> remaining cid (handleDeleteChat env True current cid w) = 0
     \<and> chats_col (handleDeleteChat env True current cid w) cid = None"
proof -
  let ?F = "docs_of cid w"
  let ?w1 = "after_page cid w"
  let ?w2 = "after_page cid ?w1"
  let ?w3 = "after_page cid ?w2"
  have ok: "db_fault env n = None" if "db_calls w \<le> n" and "n < db_calls w + 7" for n
  proof -
    from that have "n - db_calls w < 7" and "db_calls w + (n - db_calls w) = n" by arith+
    with healthy [rule_format, of "n - db_calls w"] show ?thesis by simp
  qed
  from size have len: "length ?F = 450" by (simp add: remaining_docs_of)
  have d1: "docs_of cid ?w1 = drop 200 ?F" and u1: "distinct (map fst (messages_col ?w1))"
    using after_page_docs [OF unique, of cid] by (simp_all add: batchSize_def)
  have d2: "docs_of cid ?w2 = drop 400 ?F" and u2: "distinct (map fst (messages_col ?w2))"
    using after_page_docs [OF u1, of cid] by (simp_all add: batchSize_def d1)
  have d3: "docs_of cid ?w3 = []"
    using after_page_docs(1) [OF u2, of cid] len by (simp add: batchSize_def d2)
  have c1: "db_calls ?w1 = db_calls w + 2" and c2: "db_calls ?w2 = db_calls w + 4"
    and c3: "db_calls ?w3 = db_calls w + 6"
    by (simp_all add: after_page_frame)
  have "drainMessages env cid w = drainMessages env cid ?w1"
    using len by (intro drainMessages_full_page ok) (simp_all add: batchSize_def)
  also have "\<dots> = drainMessages env cid ?w2"
    using len by (intro drainMessages_full_page ok) (simp_all add: batchSize_def c1 d1)
  also have "\<dots> = (None, ?w3)"
    using len by (intro drainMessages_last_page ok) (auto simp: batchSize_def c2 d2)
  finally have drain: "drainMessages env cid w = (None, ?w3)" .
  have del: "deleteDoc_chats env cid ?w3 =
               (None, ?w3\<lparr>trace := trace ?w3 @ [Db (DeleteChat cid) True],
                          db_calls := db_calls ?w3 + 1,
                          chats_col := (chats_col ?w3)(cid := None)\<rparr>)"
    by (intro deleteDoc_chats_ok ok) (simp_all add: c3)
  have t3: "trace ?w3 =
      trace w
      @ [Db (GetDocs cid 200) True,
         Db (BatchDeleteMessages (map fst (take 200 ?F))) True,
         Db (GetDocs cid 200) True,
         Db (BatchDeleteMessages (map fst (take 200 (drop 200 ?F)))) True,
         Db (GetDocs cid 200) True,
         Db (BatchDeleteMessages (map fst (drop 400 ?F))) True]"
    using len by (simp add: after_page_frame d1 d2 batchSize_def)
  have "remaining cid ?w3 = 0" by (simp add: remaining_docs_of d3)
  moreover have "messages_col (handleDeleteChat env True current cid w) = messages_col ?w3"
    by (simp add: handleDeleteChat_def drain del emit_def)
  ultimately have r: "remaining cid (handleDeleteChat env True current cid w) = 0"
    by (simp add: remaining_def)
  have t: "trace (handleDeleteChat env True current cid w) =
             trace ?w3 @ [Db (DeleteChat cid) True]
               @ (if Some cid = current then [OnNewChat] else [])"
    by (simp add: handleDeleteChat_def drain del emit_def)
  have c: "chats_col (handleDeleteChat env True current cid w) cid = None"
    by (simp add: handleDeleteChat_def drain del emit_def)
  from t t3 r c len show ?thesis by simp
qed

theorem delete_450_turns_three_pages_witness:
  "remaining 7 long_chat_world = 450
   \<and> length (trace long_chat_deleted) = 8
   \<and> trace long_chat_deleted ! 0 = Db (GetDocs 7 200) True
   \<and> trace long_chat_deleted ! 2 = Db (GetDocs 7 200) True
   \<and> trace long_chat_deleted ! 4 = Db (GetDocs 7 200) True
   \<and> trace long_chat_deleted ! 6 = Db (DeleteChat 7) True
   \<and> trace long_chat_deleted ! 7 = OnNewChat
   \<and> remaining 7 long_chat_deleted = 0
   \<and> chats_col long_chat_deleted 7 = None"
proof -
  have size: "remaining 7 long_chat_world = 450"
    by (simp add: remaining_def long_chat_world_def filter_map comp_def del: upt_rec_numeral)
  have unique: "distinct (map fst (messages_col long_chat_world))"
    by (simp add: long_chat_world_def comp_def del: upt_rec_numeral)
  have healthy: "\<forall>k<7. db_fault (example_env None server_error) (db_calls long_chat_world + k) = None"
    by (simp add: example_env_def)
  have empty: "trace long_chat_world = []"
    by (simp add: long_chat_world_def)
  from delete_450_turns_three_pages [OF size unique healthy, of "Some 7",
      folded long_chat_deleted_def]
  show ?thesis
    by (simp add: size empty)
qed

subsection \<open>Clearing all chats\<close>




















































text \<open>The two calls of \<open>late_reply\<close> are what \<open>saveAiMessage\<close> does with the answer.\<close>

lemma parseDirective_Hi: "parseDirective (candidateText (Some ''Hi!'')) = (''Hi!'', None)"
  by code_simp

lemma saveAiMessage_in_two_calls:
  "snd (saveAiMessage (example_env None answer_hi) (typing []) 7 (Some ''Hi!'') w) =
     snd (updateDoc_chats (example_env None answer_hi) 7 (aiPatch ''Hi!'' None)
            (snd (addDoc_messages (example_env None answer_hi) (aiMessageData 7 ''Hi!'' None) w)))"
proof -
  let ?env = "example_env None answer_hi"
  let ?a = "addDoc_messages ?env (aiMessageData 7 ''Hi!'' None) w"
  have "fst ?a = Inr (next_id w)"
    by (simp add: addDoc_messages_def db_call_def emit_def example_env_def)
  then show ?thesis
    by (cases ?a; cases "updateDoc_chats ?env 7 (aiPatch ''Hi!'' None) (snd ?a)";
        cases "fst (updateDoc_chats ?env 7 (aiPatch ''Hi!'' None) (snd ?a))")
       (simp_all add: saveAiMessage_def parseDirective_Hi typing_def example_env_def)
qed




section \<open>The title of a chat\<close>

lemma same_titles_refl: "same_titles w w"
  by (simp add: same_titles_def)

lemma same_titles_trans: "same_titles w w1 \<Longrightarrow> same_titles w1 w2 \<Longrightarrow> same_titles w w2"
  by (simp add: same_titles_def)

lemma same_titles_chats: "chats_col w' = chats_col w \<Longrightarrow> same_titles w w'"
  by (simp add: same_titles_def)

lemma addDoc_messages_chats: "chats_col (snd (addDoc_messages env d w)) = chats_col w"
  by (cases "db_fault env (db_calls w)")
     (simp_all add: addDoc_messages_def db_call_def emit_def)

lemma updateDoc_chats_same_titles:
  assumes "set_title p = None"
  shows "same_titles w (snd (updateDoc_chats env cid p w))"
  using assms
  by (cases "db_fault env (db_calls w)"; cases "chats_col w cid")
     (simp_all add: updateDoc_chats_def db_call_def emit_def same_titles_def apply_patch_def)

lemma saveAiMessage_same_titles: "same_titles w (snd (saveAiMessage env st cid candidate w))"
proof -
  obtain aiText url where pd: "parseDirective (candidateText candidate) = (aiText, url)"
    by (cases "parseDirective (candidateText candidate)")
  let ?a = "addDoc_messages env (aiMessageData cid aiText url) w"
  let ?u = "updateDoc_chats env cid (aiPatch aiText url) (snd ?a)"
  have 1: "same_titles w (snd ?a)" by (rule same_titles_chats) (rule addDoc_messages_chats)
  have "same_titles (snd ?a) (snd ?u)"
    by (rule updateDoc_chats_same_titles) (simp add: aiPatch_def)
  with 1 have 2: "same_titles w (snd ?u)" by (rule same_titles_trans)
  have "same_titles (snd ?u) (emit [Speak aiText] (snd ?u))"
    by (rule same_titles_chats) (simp add: emit_def)
  with 2 have 3: "same_titles w (emit [Speak aiText] (snd ?u))" by (rule same_titles_trans)
  show ?thesis
    using 1 2 3
    by (cases ?a; cases "fst ?a"; cases ?u; cases "fst ?u")
       (auto simp: saveAiMessage_def pd)
qed

lemma saveErrorMessage_same_titles: "same_titles w (saveErrorMessage env cid error w)"
proof -
  let ?w0 = "emit [ConsoleError ''AI Chat Error:'', ConsoleError ''Error type:'',
                     ConsoleError ''Error message:''] w"
  let ?a = "addDoc_messages env (errorMessageData cid error) ?w0"
  let ?u = "updateDoc_chats env cid errorPatch (snd ?a)"
  let ?f = "emit [ConsoleError ''Failed to save error message to Firestore:'']"
  have "chats_col (snd ?a) = chats_col w" by (simp add: addDoc_messages_chats emit_def)
  then have 1: "same_titles w (snd ?a)" by (rule same_titles_chats)
  have "same_titles (snd ?a) (snd ?u)"
    by (rule updateDoc_chats_same_titles) (simp add: errorPatch_def)
  with 1 have 2: "same_titles w (snd ?u)" by (rule same_titles_trans)
  have "same_titles (snd ?a) (?f (snd ?a))" by (rule same_titles_chats) (simp add: emit_def)
  with 1 have 3: "same_titles w (?f (snd ?a))" by (rule same_titles_trans)
  have "same_titles (snd ?u) (?f (snd ?u))" by (rule same_titles_chats) (simp add: emit_def)
  with 2 have 4: "same_titles w (?f (snd ?u))" by (rule same_titles_trans)
  show ?thesis
    using 2 3 4
    by (cases ?a; cases "fst ?a"; cases ?u; cases "fst ?u")
       (auto simp: saveErrorMessage_def Let_def)
qed

lemma assistantStep_same_titles:
  "same_titles w (snd (snd (assistantStep env st cid ti w)))"
proof -
  obtain url p st1 where br: "buildRequest st ti = (url, p, st1)"
    by (cases "buildRequest st ti") auto
  let ?c = "callCompletion env url p w"
  have "only_network w (snd ?c)" by (rule only_network_callCompletion)
  then have c: "same_titles w (snd ?c)" by (intro same_titles_chats) (simp add: only_network_def)
  show ?thesis
  proof (cases "fst ?c")
    case (Inl error)
    with c show ?thesis by (cases ?c) (simp add: assistantStep_def br)
  next
    case (Inr candidate)
    from c saveAiMessage_same_titles
    have "same_titles w (snd (saveAiMessage env st cid candidate (snd ?c)))"
      by (rule same_titles_trans)
    with Inr show ?thesis
      by (cases ?c; cases "saveAiMessage env st cid candidate (snd ?c)")
         (simp add: assistantStep_def br)
  qed
qed

text \<open>After the user turn and its update of the chat are written, nothing in the handler
  touches a title.\<close>

lemma handleSendMessage_same_titles:
  assumes chat: "currentChatId st = Some cid" and idle: "\<not> isLoading st"
    and typed: "trim (input st) \<noteq> [] \<or> truthy (selectedImage st)"
    and saved: "fst (saveUserMessage env usr st cid (trim (input st)) w) = None"
  shows "same_titles (snd (saveUserMessage env usr st cid (trim (input st)) w))
           (snd (handleSendMessage env usr st w))"
proof -
  let ?ti = "trim (input st)"
  let ?st1 = "st\<lparr>input := [], isLoading := True, userMessageCount := userMessageCount st + 1\<rparr>"
  let ?w1 = "snd (saveUserMessage env usr st cid ?ti w)"
  let ?a = "assistantStep env ?st1 cid ?ti ?w1"
  have a: "same_titles ?w1 (snd (snd ?a))" by (rule assistantStep_same_titles)
  show ?thesis
  proof (cases "fst ?a")
    case None
    with saved a show ?thesis
      unfolding handleSendMessage_started [OF chat idle typed]
      by (cases "saveUserMessage env usr st cid ?ti w"; cases ?a)
         (simp add: Let_def)
  next
    case (Some error)
    from a saveErrorMessage_same_titles
    have "same_titles ?w1 (saveErrorMessage env cid error (snd (snd ?a)))"
      by (rule same_titles_trans)
    with saved Some show ?thesis
      unfolding handleSendMessage_started [OF chat idle typed]
      by (cases "saveUserMessage env usr st cid ?ti w"; cases ?a)
         (simp add: Let_def)
  qed
qed

lemma saveUserMessage_title:
  assumes "fst (saveUserMessage env usr st cid ti w) = None"
  shows "\<exists>c. chats_col w cid = Some c
           \<and> map_option title (chats_col (snd (saveUserMessage env usr st cid ti w)) cid) =
               Some (if filter (\<lambda>m. \<not> isWelcome (snd m)) (messages st) = []
                     then Some (chatTitle ti) else title c)"
proof (cases "db_fault env (db_calls w)")
  case (Some e)
  with assms show ?thesis by (simp add: saveUserMessage_def addDoc_messages_fault)
next
  case None
  note a = addDoc_messages_ok [OF None, of "userMessageData usr st cid ti"]
  let ?w1 = "snd (addDoc_messages env (userMessageData usr st cid ti) w)"
  from a have w1: "chats_col ?w1 = chats_col w" "db_calls ?w1 = db_calls w + 1" by simp_all
  show ?thesis
  proof (cases "db_fault env (db_calls w + 1)")
    case (Some e)
    with assms a show ?thesis
      by (simp add: saveUserMessage_def updateDoc_chats_def db_call_def emit_def)
  next
    case ok: None
    show ?thesis
    proof (cases "chats_col w cid")
      case None
      with assms a ok show ?thesis
        by (simp add: saveUserMessage_def updateDoc_chats_def db_call_def emit_def)
    next
      case (Some c)
      with a ok show ?thesis
        by (simp add: saveUserMessage_def updateDoc_chats_def db_call_def emit_def
              apply_patch_def userPatch_def Let_def)
    qed
  qed
qed

lemma title_after_send:
  assumes chat: "currentChatId st = Some cid" and idle: "\<not> isLoading st"
    and typed: "trim (input st) \<noteq> [] \<or> truthy (selectedImage st)"
    and saved: "fst (saveUserMessage env usr st cid (trim (input st)) w) = None"
  shows "\<exists>c. chats_col w cid = Some c
           \<and> map_option title (chats_col (snd (handleSendMessage env usr st w)) cid) =
               Some (if filter (\<lambda>m. \<not> isWelcome (snd m)) (messages st) = []
                     then Some (chatTitle (trim (input st))) else title c)"
  using saveUserMessage_title [OF saved] handleSendMessage_same_titles [OF chat idle typed saved]
  by (simp add: same_titles_def)

lemma live_view_nonWelcome:
  assumes view: "messages st = messages (onSnapshot_messages usr cid w st)"
    and persisted: "\<forall>d\<in>set (messages_col w). \<not> isWelcome (snd d)"
  shows "filter (\<lambda>m. \<not> isWelcome (snd m)) (messages st) = [] \<longleftrightarrow> remaining cid w = 0"
proof (cases "remaining cid w = 0")
  case True
  with view have "messages st = [(None, welcome_msg usr)]"
    by (simp add: onSnapshot_messages_def remaining_def Let_def)
  with True show ?thesis by (simp add: welcome_msg_def)
next
  case False
  then obtain d where d: "d \<in> set (messages_col w)" "chatId (snd d) = Some cid"
    by (auto simp: remaining_def filter_empty_conv)
  with view False have "(Some (fst d), snd d) \<in> set (messages st)"
    by (auto simp: onSnapshot_messages_def remaining_def Let_def)
  moreover from d(1) persisted have "\<not> isWelcome (snd d)" by simp
  ultimately have "\<exists>m\<in>set (messages st). \<not> isWelcome (snd m)"
    by (intro bexI [of _ "(Some (fst d), snd d)"]) simp_all
  then have "filter (\<lambda>m. \<not> isWelcome (snd m)) (messages st) \<noteq> []"
    by (simp add: filter_empty_conv)
  with False show ?thesis by simp
qed

text \<open>What holds of the title when the messages on screen are the snapshot of the log: the
  first user turn of a chat sets it, a later one leaves it as it is.\<close>

lemma title_with_live_view:
  assumes chat: "currentChatId st = Some cid" and idle: "\<not> isLoading st"
    and typed: "trim (input st) \<noteq> [] \<or> truthy (selectedImage st)"
    and saved: "fst (saveUserMessage env usr st cid (trim (input st)) w) = None"
    and view: "messages st = messages (onSnapshot_messages usr cid w st)"
    and persisted: "\<forall>d\<in>set (messages_col w). \<not> isWelcome (snd d)"
  shows "\<exists>c. chats_col w cid = Some c
           \<and> map_option title (chats_col (snd (handleSendMessage env usr st w)) cid) =
               Some (if remaining cid w = 0 then Some (chatTitle (trim (input st)))
                     else title c)"
  using title_after_send [OF chat idle typed saved] live_view_nonWelcome [OF view persisted]
  by simp

text \<open>
  Claim C4. The handler decides whether a turn is the first one from the messages on
  screen (\<^verbatim>\<open>messages.filter(m => !m.isWelcome).length === 0\<close>), not from the log. After
  \<^verbatim>\<open>handleSelectChat\<close> the screen is empty until the subscription delivers its first
  snapshot, and after the error callback of the subscription it holds one placeholder
  flagged \<^verbatim>\<open>isWelcome\<close>. In the world below chat 7 has two persisted turns and the title
  \<open>Trip plan\<close>; a text sent in either state is a later user turn of the chat, and it
  replaces the title, against the claim and against the source's own comment
  (\<^verbatim>\<open>Update chat title if this is the first message\<close>).
\<close>

theorem second_turn_overwrites_title:
  "remaining 7 titled_world = 2
   \<and> map_option title (chats_col titled_world 7) = Some (Some ''Trip plan'')
   \<and> map_option title
         (chats_col
            (snd (handleSendMessage (example_env None answer_hi) None
                    (handleSelectChat 7 (typing ''second question'')) titled_world)) 7)
       = Some (Some ''second question'')
   \<and> map_option title
         (chats_col
            (snd (handleSendMessage (example_env None answer_hi) None
                    (fst (onSnapshot_messages_error (Error ''The query requires an index'')
                            (typing ''second question'') titled_world))
                    (snd (onSnapshot_messages_error (Error ''The query requires an index'')
                            (typing ''second question'') titled_world)))) 7)
       = Some (Some ''second question'')"
proof -
  let ?env = "example_env None answer_hi"
  let ?st = "handleSelectChat 7 (typing ''second question'')"
  let ?e = "onSnapshot_messages_error (Error ''The query requires an index'')
              (typing ''second question'') titled_world"
  have t: "trim (input ?st) = ''second question''" "trim (input (fst ?e)) = ''second question''"
    by (simp_all add: handleSelectChat_def onSnapshot_messages_error_def typing_def trim_def
          is_white_space_def)
  have chat: "currentChatId ?st = Some 7" and idle: "\<not> isLoading ?st"
    and typed: "trim (input ?st) \<noteq> [] \<or> truthy (selectedImage ?st)"
    and view: "filter (\<lambda>m. \<not> isWelcome (snd m)) (messages ?st) = []"
    by (simp_all add: t) (simp_all add: handleSelectChat_def typing_def)
  have chat': "currentChatId (fst ?e) = Some 7" and idle': "\<not> isLoading (fst ?e)"
    and typed': "trim (input (fst ?e)) \<noteq> [] \<or> truthy (selectedImage (fst ?e))"
    and view': "filter (\<lambda>m. \<not> isWelcome (snd m)) (messages (fst ?e)) = []"
    by (simp_all add: t) (simp_all add: onSnapshot_messages_error_def typing_def)
  have saved: "fst (saveUserMessage ?env None ?st 7 (trim (input ?st)) titled_world) = None"
    by (simp add: saveUserMessage_def addDoc_messages_def db_call_def emit_def
        example_env_def titled_world_def updateDoc_chats_def Let_def)
  have saved': "fst (saveUserMessage ?env None (fst ?e) 7 (trim (input (fst ?e))) (snd ?e)) = None"
    by (simp add: saveUserMessage_def addDoc_messages_def db_call_def emit_def
        example_env_def titled_world_def updateDoc_chats_def Let_def
        onSnapshot_messages_error_def)
  have short: "chatTitle ''second question'' = ''second question''"
    by (simp add: chatTitle_def or_else_def)
  from title_after_send [OF chat idle typed saved] view t short
  have 1: "map_option title (chats_col (snd (handleSendMessage ?env None ?st titled_world)) 7)
          = Some (Some ''second question'')"
    by auto
  from title_after_send [OF chat' idle' typed' saved'] view' t short
  have 2: "map_option title
             (chats_col (snd (handleSendMessage ?env None (fst ?e) (snd ?e))) 7)
          = Some (Some ''second question'')"
    by auto
  have "remaining 7 titled_world = 2"
    and "map_option title (chats_col titled_world 7) = Some (Some ''Trip plan'')"
    by (simp_all add: remaining_def titled_world_def plain_msg_def new_chat_def)
  with 1 2 show ?thesis by simp
qed

end
